theory Spec2Isabelle
  imports Complex_Main "HOL-Library.Sublist"
begin

section \<open>Errors and containers\<close>

text \<open>
  The exceptions the wrapper raises itself are \<open>ValueError\<close>s; a missing dictionary
  key is a \<open>KeyError\<close>, an index outside an array an \<open>IndexError\<close>, a stored value
  of another kind than the code expects a \<open>TypeError\<close>, an assignment through a
  pandas index with repeated labels an \<open>InvalidIndexError\<close>.  \<open>RuntimeError\<close> stands for
  whatever an external collaborator (network constructor, encoder, surgery mixin)
  raises; the wrapper passes it on unchanged.
\<close>

datatype error =
    ValueError string
  | KeyError string
  | IndexError string
  | TypeError string
  | InvalidIndexError string
  | RuntimeError string

text \<open>
  Sequencing of steps that may raise: \<open>ebind r f\<close> passes the value of \<open>r\<close> on to
  \<open>f\<close>, and stops at the exception when \<open>r\<close> raised one.
\<close>

definition ebind :: "error + 'a \<Rightarrow> ('a \<Rightarrow> error + 'b) \<Rightarrow> error + 'b" where
  "ebind r f = (case r of Inl e \<Rightarrow> Inl e | Inr v \<Rightarrow> f v)"

text \<open>
  A two-dimensional array (numpy array or torch tensor) with its shape.  Keeping the shape
  beside the entries keeps arrays with zero rows apart from arrays with zero columns.
\<close>

record 'a ndarray2 =
  shape0 :: nat
  shape1 :: nat
  entry :: "nat \<Rightarrow> nat \<Rightarrow> 'a"

definition tolist :: "'a ndarray2 \<Rightarrow> 'a list list" where
  "tolist a = map (\<lambda>i. map (\<lambda>j. entry a i j) [0..<shape1 a]) [0..<shape0 a]"

definition transpose_T :: "'a ndarray2 \<Rightarrow> 'a ndarray2" where
  "transpose_T a = \<lparr>shape0 = shape1 a, shape1 = shape0 a, entry = (\<lambda>i j. entry a j i)\<rparr>"

definition column :: "'a ndarray2 \<Rightarrow> nat \<Rightarrow> 'a list" where
  "column a j = map (\<lambda>i. entry a i j) [0..<shape0 a]"

text \<open>
  \<open>torch.tensor\<close> and \<open>np.array\<close> (with a scalar dtype) on a nested list: the rows
  must all have the length of the first one, otherwise a \<open>ValueError\<close> is raised.
\<close>

definition array_of_rows :: "'a list list \<Rightarrow> error + 'a ndarray2" where
  "array_of_rows rows =
     (case rows of
        [] \<Rightarrow> Inr \<lparr>shape0 = 0, shape1 = 0, entry = (\<lambda>i j. rows ! i ! j)\<rparr>
      | r # rs \<Rightarrow>
          if list_all (\<lambda>q. length q = length r) rs
          then Inr \<lparr>shape0 = length rows, shape1 = length r, entry = (\<lambda>i j. rows ! i ! j)\<rparr>
          else Inl (ValueError ''inhomogeneous shape''))"

text \<open>\<open>a[i]\<close> for a row index that is not negative.\<close>

definition row :: "'a ndarray2 \<Rightarrow> nat \<Rightarrow> error + 'a list" where
  "row a i =
     (if i < shape0 a then Inr (map (\<lambda>j. entry a i j) [0..<shape1 a])
      else Inl (IndexError ''index is out of bounds for axis 0''))"

text \<open>\<open>xs[mask] = v\<close> on a one-dimensional array, \<open>mask\<close> a boolean array of its length.\<close>

definition mask_assign :: "bool list \<Rightarrow> 'a \<Rightarrow> 'a list \<Rightarrow> 'a list" where
  "mask_assign bs v xs = map (\<lambda>(b, x). if b then v else x) (zip bs xs)"

text \<open>
  \<open>xs[t] = v\<close> on a one-dimensional numpy array, where the index \<open>t\<close> is a boolean
  torch tensor (lines 209 and 215).  numpy takes a tensor of exactly one element as the
  integer index 0 or 1, so \<open>xs[0]\<close> or \<open>xs[1]\<close> is assigned, and an index outside the
  array raises an \<open>IndexError\<close>; a tensor of any other size is taken as a boolean
  mask.
\<close>

definition tensor_index_assign :: "bool list \<Rightarrow> 'a \<Rightarrow> 'a list \<Rightarrow> error + 'a list" where
  "tensor_index_assign t v xs =
     (case t of
        [b] \<Rightarrow>
          (let k = (if b then 1 else 0)
           in if k < length xs then Inr (xs[k := v])
              else Inl (IndexError ''index is out of bounds for axis 0''))
      | _ \<Rightarrow> Inr (mask_assign t v xs))"

text \<open>
  \<open>xs[mask]\<close> on a one-dimensional array or index by a boolean array: the lengths must
  agree, otherwise an \<open>IndexError\<close> is raised.
\<close>

definition index_by_mask :: "'a list \<Rightarrow> bool list \<Rightarrow> error + 'a list" where
  "index_by_mask xs bs =
     (if length bs \<noteq> length xs then Inl (IndexError ''boolean index did not match'')
      else Inr (map fst (filter snd (zip xs bs))))"

text \<open>\<open>Series.unique()\<close>: the distinct values in order of first appearance.\<close>

fun unique :: "'a list \<Rightarrow> 'a list" where
  "unique [] = []"
| "unique (x # xs) = x # unique (filter (\<lambda>y. y \<noteq> x) xs)"

text \<open>An array argument that the caller may pass as a nested list or as an array object.\<close>

datatype 'a array_arg = AsList "'a list list" | AsArray "'a ndarray2"

definition arg_tolist :: "'a array_arg \<Rightarrow> 'a list list" where
  "arg_tolist m = (case m of AsList l \<Rightarrow> l | AsArray a \<Rightarrow> tolist a)"

definition arg_tensor :: "'a array_arg \<Rightarrow> error + 'a ndarray2" where
  "arg_tensor m = (case m of AsList l \<Rightarrow> array_of_rows l | AsArray a \<Rightarrow> Inr a)"

section \<open>Floating-point values\<close>

text \<open>
  Array entries are IEEE floats.  Rounding is not modelled (a finite value is a real
  number), but the special values are: a division by zero or a logarithm of zero gives an
  infinity, an undefined operation gives NaN, and every comparison with NaN is false.
\<close>

datatype float = Fin real | PInf | NInf | NaN

fun fneg :: "float \<Rightarrow> float" where
  "fneg (Fin x) = Fin (- x)"
| "fneg PInf = NInf"
| "fneg NInf = PInf"
| "fneg NaN = NaN"

fun fadd :: "float \<Rightarrow> float \<Rightarrow> float" where
  "fadd (Fin x) (Fin y) = Fin (x + y)"
| "fadd NaN _ = NaN"
| "fadd _ NaN = NaN"
| "fadd PInf NInf = NaN"
| "fadd NInf PInf = NaN"
| "fadd PInf _ = PInf"
| "fadd NInf _ = NInf"
| "fadd _ PInf = PInf"
| "fadd _ NInf = NInf"

definition fsub :: "float \<Rightarrow> float \<Rightarrow> float" where
  "fsub a b = fadd a (fneg b)"

text \<open>The sign of a float as \<open>-1\<close>, \<open>0\<close> or \<open>1\<close>; \<open>None\<close> for NaN.\<close>

fun fsign :: "float \<Rightarrow> int option" where
  "fsign (Fin x) = Some (if x < 0 then - 1 else if x = 0 then 0 else 1)"
| "fsign PInf = Some 1"
| "fsign NInf = Some (- 1)"
| "fsign NaN = None"

definition inf_of_sign :: "int \<Rightarrow> float" where
  "inf_of_sign s = (if s < 0 then NInf else if s = 0 then NaN else PInf)"

fun fmul :: "float \<Rightarrow> float \<Rightarrow> float" where
  "fmul (Fin x) (Fin y) = Fin (x * y)"
| "fmul a b =
     (case (fsign a, fsign b) of
        (Some s, Some t) \<Rightarrow> inf_of_sign (s * t)
      | _ \<Rightarrow> NaN)"

text \<open>
  Division: a finite nonzero value over zero is an infinity, zero over zero and infinity
  over infinity are NaN, a finite value over an infinity is zero.  (The divisors of this
  program are square roots and counts, so a zero divisor is \<open>+0\<close>.)
\<close>

fun fdiv :: "float \<Rightarrow> float \<Rightarrow> float" where
  "fdiv NaN _ = NaN"
| "fdiv _ NaN = NaN"
| "fdiv (Fin x) (Fin y) = (if y = 0 then inf_of_sign (if x < 0 then - 1 else if x = 0 then 0 else 1) else Fin (x / y))"
| "fdiv (Fin x) _ = Fin 0"
| "fdiv a (Fin y) = (if y < 0 then fneg a else a)"
| "fdiv _ _ = NaN"

fun fabs :: "float \<Rightarrow> float" where
  "fabs (Fin x) = Fin \<bar>x\<bar>"
| "fabs NaN = NaN"
| "fabs _ = PInf"

fun fsqrt :: "float \<Rightarrow> float" where
  "fsqrt (Fin x) = (if x < 0 then NaN else Fin (sqrt x))"
| "fsqrt PInf = PInf"
| "fsqrt _ = NaN"

fun flog :: "float \<Rightarrow> float" where
  "flog (Fin x) = (if x < 0 then NaN else if x = 0 then NInf else Fin (ln x))"
| "flog PInf = PInf"
| "flog _ = NaN"

fun fgt :: "float \<Rightarrow> float \<Rightarrow> bool" where
  "fgt (Fin x) (Fin y) = (x > y)"
| "fgt NaN _ = False"
| "fgt _ NaN = False"
| "fgt PInf b = (b \<noteq> PInf)"
| "fgt NInf _ = False"
| "fgt (Fin x) PInf = False"
| "fgt (Fin x) NInf = True"

definition flt :: "float \<Rightarrow> float \<Rightarrow> bool" where
  "flt a b = fgt b a"

text \<open>\<open>==\<close> on floats: NaN equals nothing.\<close>

definition feq :: "float \<Rightarrow> float \<Rightarrow> bool" where
  "feq a b = (a \<noteq> NaN \<and> a = b)"

text \<open>
  The complementary error function of \<open>scipy.special\<close>, by the power series of the
  error function: \<open>erfc x = 1 - 2/\<surd>\<pi> \<cdot> \<Sum>n. (-1)^n x^(2n+1) / (n! (2n+1))\<close>.
\<close>

definition erfc :: "real \<Rightarrow> real" where
  "erfc x = 1 - 2 / sqrt pi * (\<Sum>n. (- 1) ^ n * x ^ (2 * n + 1) / (fact n * real (2 * n + 1)))"

fun ferfc :: "float \<Rightarrow> float" where
  "ferfc (Fin x) = Fin (erfc x)"
| "ferfc PInf = Fin 0"
| "ferfc NInf = Fin 2"
| "ferfc NaN = NaN"

text \<open>Sum of a list of floats, from the left, starting at zero.\<close>

definition fsum :: "float list \<Rightarrow> float" where
  "fsum xs = foldl fadd (Fin 0) xs"

text \<open>\<open>np.mean\<close> of a one-dimensional slice: NaN for an empty slice (zero over zero).\<close>

definition fmean :: "float list \<Rightarrow> float" where
  "fmean xs = fdiv (fsum xs) (Fin (real (length xs)))"

section \<open>The dataset and the wrapper's state\<close>

text \<open>One category's entry of the enrichment scores: \<open>dict(p_h0=..., p_h1=..., bf=...)\<close>.\<close>

record enrich_scores =
  p_h0 :: "float list"
  p_h1 :: "float list"
  bf :: "float list"

text \<open>What this module reads from or writes to the auxiliary store \<open>adata.uns\<close>.\<close>

datatype uns_value =
    UStrList "string list"
  | UArray "float list"
  | UScores "string \<Rightarrow> enrich_scores option"

text \<open>
  The annotated dataset, as far as the wrapper touches it: the cell rows \<open>X\<close> (their
  content only matters to the encoder), cell and gene names, the per-cell annotation
  columns \<open>obs\<close>, the per-gene matrices \<open>varm\<close>, and the auxiliary store \<open>uns\<close>.
\<close>

record 'x anndata =
  X :: "'x list"
  obs_names :: "string list"
  var_names :: "string list"
  obs :: "string \<Rightarrow> string list option"
  varm :: "string \<Rightarrow> int ndarray2 option"
  uns :: "string \<Rightarrow> uns_value option"

definition n_vars :: "'x anndata \<Rightarrow> nat" where
  "n_vars a = length (var_names a)"

text \<open>
  The network, as far as the wrapper looks into it: the decoder's first-layer expression
  weights (\<open>model.decoder.L0.expr_L.weight.data\<close>, genes by terms) and the named
  parameters with their \<open>requires_grad\<close> flags.
\<close>

record expiMap_net =
  expr_L_weight :: "float ndarray2"
  named_parameters :: "(string \<times> bool) list"

text \<open>The positional arguments of the network constructor \<open>expiMap(...)\<close>, in order.\<close>

record expiMap_args =
  net_input_dim :: nat
  net_latent_dim :: nat
  net_mask :: "int ndarray2"
  net_conditions :: "string list"
  net_hidden_layer_sizes :: "nat list"
  net_dr_rate :: real
  net_recon_loss :: string
  net_use_l_encoder :: bool
  net_use_bn :: bool
  net_use_ln :: bool
  net_decoder_last_layer :: "string option"
  net_soft_mask :: bool
  net_n_ext :: int
  net_n_ext_m :: int
  net_use_hsic :: bool
  net_hsic_one_vs_all :: bool
  net_ext_mask :: "int ndarray2 option"
  net_soft_ext_mask :: bool

text \<open>
  The attributes of an \<open>EXPIMAP\<close> object: \<open>self_mask\<close> is \<open>self.mask_\<close>,
  \<open>self_adata\<close> is \<open>self.adata\<close>, and so on (\<open>self.trainer\<close> is left out).
\<close>

record 'x EXPIMAP =
  self_adata :: "'x anndata"
  self_condition_key :: "string option"
  self_conditions :: "string list"
  self_hidden_layer_sizes :: "nat list"
  self_dr_rate :: real
  self_recon_loss :: string
  self_use_bn :: bool
  self_use_ln :: bool
  self_input_dim :: nat
  self_use_l_encoder :: bool
  self_decoder_last_layer :: "string option"
  self_mask :: "int list list"
  self_latent_dim :: nat
  self_ext_mask :: "int list list option"
  self_n_ext :: int
  self_n_ext_m :: int
  self_soft_mask :: bool
  self_soft_ext_mask :: bool
  self_use_hsic :: bool
  self_hsic_one_vs_all :: bool
  self_model :: expiMap_net
  self_is_trained :: bool

text \<open>The parameters of \<open>EXPIMAP.__init__\<close>: \<open>init_mask\<close> is the parameter \<open>mask\<close>, and so on.\<close>

record 'x init_args =
  init_adata :: "'x anndata"
  init_condition_key :: "string option"
  init_conditions :: "string list option"
  init_hidden_layer_sizes :: "nat list"
  init_dr_rate :: real
  init_recon_loss :: string
  init_use_l_encoder :: bool
  init_use_bn :: bool
  init_use_ln :: bool
  init_mask :: "int array_arg option"
  init_mask_key :: string
  init_decoder_last_layer :: "string option"
  init_soft_mask :: bool
  init_n_ext :: int
  init_n_ext_m :: int
  init_use_hsic :: bool
  init_hsic_one_vs_all :: bool
  init_ext_mask :: "int array_arg option"
  init_soft_ext_mask :: bool

text \<open>The defaults of the keyword parameters.\<close>

definition init_defaults :: "'x anndata \<Rightarrow> 'x init_args" where
  "init_defaults d =
     \<lparr>init_adata = d, init_condition_key = None, init_conditions = None,
      init_hidden_layer_sizes = [256, 256], init_dr_rate = 0.05, init_recon_loss = ''nb'',
      init_use_l_encoder = False, init_use_bn = False, init_use_ln = True,
      init_mask = None, init_mask_key = ''I'', init_decoder_last_layer = None,
      init_soft_mask = False, init_n_ext = 0, init_n_ext_m = 0, init_use_hsic = False,
      init_hsic_one_vs_all = False, init_ext_mask = None, init_soft_ext_mask = False\<rparr>"

section \<open>Construction\<close>

text \<open>
  Lines 75-76 and 99-100: the \<open>mask\<close> argument, or the transposed
  \<open>adata.varm[mask_key]\<close>; a \<open>ValueError\<close> when there is neither.
\<close>

definition resolve_mask :: "'x init_args \<Rightarrow> error + int array_arg" where
  "resolve_mask a =
     (case init_mask a of
        Some m \<Rightarrow> Inr m
      | None \<Rightarrow>
          (case varm (init_adata a) (init_mask_key a) of
             None \<Rightarrow> Inl (ValueError ''Please provide mask.'')
           | Some v \<Rightarrow> Inr (AsArray (transpose_T v))))"

text \<open>Lines 80-86: the condition vocabulary.\<close>

definition resolve_conditions :: "'x init_args \<Rightarrow> error + string list" where
  "resolve_conditions a =
     (case init_conditions a of
        Some cs \<Rightarrow> Inr cs
      | None \<Rightarrow>
          (case init_condition_key a of
             None \<Rightarrow> Inr []
           | Some k \<Rightarrow>
               (case obs (init_adata a) k of
                  None \<Rightarrow> Inl (KeyError k)
                | Some col \<Rightarrow> Inr (unique col))))"

text \<open>Lines 106-109: the extension mask as stored and as a tensor.\<close>

definition resolve_ext_mask ::
  "int array_arg option \<Rightarrow> error + (int list list option \<times> int ndarray2 option)" where
  "resolve_ext_mask e =
     (case e of
        None \<Rightarrow> Inr (None, None)
      | Some m \<Rightarrow>
          (case arg_tensor m of
             Inl err \<Rightarrow> Inl err
           | Inr t \<Rightarrow> Inr (Some (arg_tolist m), Some t)))"

text \<open>
  \<open>EXPIMAP.__init__\<close>.  The network constructor \<open>expiMap\<close> is an external collaborator
  and a parameter here.  The mask check of line 75 and the lookup of line 100 are done
  together in \<open>resolve_mask\<close>; nothing between them depends on the mask.
\<close>

definition EXPIMAP_init ::
  "(expiMap_args \<Rightarrow> error + expiMap_net) \<Rightarrow> 'x init_args \<Rightarrow> error + 'x EXPIMAP" where
  "EXPIMAP_init expiMap a =
     ebind (resolve_mask a) (\<lambda>m.
     ebind (resolve_conditions a) (\<lambda>conds.
     ebind (arg_tensor m) (\<lambda>mask_t.
     ebind (resolve_ext_mask (init_ext_mask a)) (\<lambda>(ext_l, ext_t).
     let latent_dim = length (arg_tolist m);
         hsic = (init_use_hsic a \<and> init_n_ext a > 0)
     in
     ebind (expiMap
            \<lparr>net_input_dim = n_vars (init_adata a), net_latent_dim = latent_dim,
             net_mask = mask_t, net_conditions = conds,
             net_hidden_layer_sizes = init_hidden_layer_sizes a, net_dr_rate = init_dr_rate a,
             net_recon_loss = init_recon_loss a, net_use_l_encoder = init_use_l_encoder a,
             net_use_bn = init_use_bn a, net_use_ln = init_use_ln a,
             net_decoder_last_layer = init_decoder_last_layer a, net_soft_mask = init_soft_mask a,
             net_n_ext = init_n_ext a, net_n_ext_m = init_n_ext_m a, net_use_hsic = hsic,
             net_hsic_one_vs_all = init_hsic_one_vs_all a, net_ext_mask = ext_t,
             net_soft_ext_mask = init_soft_ext_mask a\<rparr>) (\<lambda>net.
     Inr \<lparr>self_adata = init_adata a, self_condition_key = init_condition_key a, self_conditions = conds,
          self_hidden_layer_sizes = init_hidden_layer_sizes a, self_dr_rate = init_dr_rate a,
          self_recon_loss = init_recon_loss a, self_use_bn = init_use_bn a, self_use_ln = init_use_ln a,
          self_input_dim = n_vars (init_adata a), self_use_l_encoder = init_use_l_encoder a,
          self_decoder_last_layer = init_decoder_last_layer a, self_mask = arg_tolist m,
          self_latent_dim = latent_dim, self_ext_mask = ext_l, self_n_ext = init_n_ext a,
          self_n_ext_m = init_n_ext_m a, self_soft_mask = init_soft_mask a,
          self_soft_ext_mask = init_soft_ext_mask a, self_use_hsic = hsic,
          self_hsic_one_vs_all = init_hsic_one_vs_all a, self_model = net,
          self_is_trained = False\<rparr>)))))"

section \<open>Terms and their genes\<close>

datatype terms_arg = TermsKey string | TermsList "string list"

text \<open>
  Lines 181-185: the term names, looked up in \<open>adata.uns\<close> or checked for length.
  Term names are strings here; a stored value that is not a list of names is outside this
  model and is reported as a \<open>TypeError\<close> (the code would iterate it all the same).
\<close>

definition resolve_terms :: "'x EXPIMAP \<Rightarrow> terms_arg \<Rightarrow> error + string list" where
  "resolve_terms self terms =
     (case terms of
        TermsKey k \<Rightarrow>
          (case uns (self_adata self) k of
             None \<Rightarrow> Inl (KeyError k)
           | Some (UStrList ts) \<Rightarrow> Inr ts
           | Some _ \<Rightarrow> Inl (TypeError ''terms''))
      | TermsList ts \<Rightarrow>
          if length ts \<noteq> length (self_mask self)
          then Inl (ValueError ''The list of terms should have the same length as the mask.'')
          else Inr ts)"

text \<open>
  Line 187, the dictionary comprehension over \<open>enumerate(terms)\<close>: \<open>i\<close> is the running
  index, \<open>d\<close> the dictionary built so far; a later entry replaces an earlier one of the
  same name.
\<close>

fun terms_genes_loop ::
  "bool ndarray2 \<Rightarrow> string list \<Rightarrow> nat \<Rightarrow> string list \<Rightarrow> (string \<Rightarrow> string list option)
     \<Rightarrow> error + (string \<Rightarrow> string list option)" where
  "terms_genes_loop I names i [] d = Inr d"
| "terms_genes_loop I names i (t # ts) d =
     ebind (row I i) (\<lambda>r.
     ebind (index_by_mask names r) (\<lambda>genes.
     terms_genes_loop I names (Suc i) ts (d(t \<mapsto> genes))))"

definition terms_genes ::
  "'x EXPIMAP \<Rightarrow> terms_arg \<Rightarrow> error + (string \<Rightarrow> string list option)" where
  "terms_genes self terms =
     ebind (resolve_terms self terms) (\<lambda>ts.
     ebind (array_of_rows (map (map (\<lambda>v. v \<noteq> 0)) (self_mask self))) (\<lambda>I.
     terms_genes_loop I (var_names (self_adata self)) 0 ts Map.empty))"

section \<open>Latent directions\<close>

text \<open>\<open>count_nonzero\<close> along dimension 0, and the column sums.\<close>

definition count_nonzero :: "float ndarray2 \<Rightarrow> nat list" where
  "count_nonzero w = map (\<lambda>j. length (filter (\<lambda>x. x \<noteq> Fin 0) (column w j))) [0..<shape1 w]"

definition count_positive :: "float ndarray2 \<Rightarrow> nat list" where
  "count_positive w = map (\<lambda>j. length (filter (\<lambda>x. fgt x (Fin 0)) (column w j))) [0..<shape1 w]"

definition sum0 :: "float ndarray2 \<Rightarrow> float list" where
  "sum0 w = map (\<lambda>j. fsum (column w j)) [0..<shape1 w]"

text \<open>
  Lines 197-200, method \<open>sum\<close>: the signs; there is no confidence.  (The column sums
  are exact sums: the rounding to single precision is not modelled.)
\<close>

definition directions_sum :: "float ndarray2 \<Rightarrow> float list" where
  "directions_sum terms_weights =
     (let signs = sum0 terms_weights;
          signs = mask_assign (map (\<lambda>s. fgt s (Fin 0)) signs) (Fin 1) signs;
          signs = mask_assign (map (\<lambda>s. flt s (Fin 0)) signs) (Fin (- 1)) signs
      in signs)"

text \<open>
  Lines 202-215, method \<open>counts\<close>: the signs and the confidence.  The ratio is a
  quotient of two counts with the divisor raised to 1 where it is 0 (an exact quotient:
  the rounding to single precision is not modelled).  \<open>num_nz\<close> is a torch tensor, the
  arrays \<open>signs\<close> and \<open>confidence\<close> are numpy arrays: the two assignments through
  \<open>num_nz==0\<close> are assignments through a tensor index.
\<close>

definition directions_counts :: "float ndarray2 \<Rightarrow> error + (float list \<times> float list)" where
  "directions_counts terms_weights =
     (let num_nz = count_nonzero terms_weights;
          upreg_genes = count_positive terms_weights;
          signs = map (\<lambda>(u, n). fdiv (Fin (real u)) (Fin (real (n + (if n = 0 then 1 else 0)))))
                    (zip upreg_genes num_nz);
          confidence = signs;
          confidence = map (\<lambda>c. fdiv (fabs (fsub c (Fin 0.5))) (Fin 0.5)) confidence
      in
      ebind (tensor_index_assign (map (\<lambda>n. n = 0) num_nz) (Fin 0) confidence) (\<lambda>confidence.
      let signs = mask_assign (map (\<lambda>s. fgt s (Fin 0.5)) signs) (Fin 1) signs;
          signs = mask_assign (map (\<lambda>s. flt s (Fin 0.5)) signs) (Fin (- 1)) signs;
          signs = mask_assign (map (\<lambda>s. feq s (Fin 0.5)) signs) (Fin 0) signs
      in
      ebind (tensor_index_assign (map (\<lambda>n. n = 0) num_nz) (Fin 0) signs) (\<lambda>signs.
      Inr (signs, confidence))))"

text \<open>
  \<open>latent_directions\<close>.  The result is the dataset that was written to: the argument
  \<open>adata\<close>, or \<open>self.adata\<close> when that is \<open>None\<close>.
\<close>

definition latent_directions ::
  "'x EXPIMAP \<Rightarrow> string \<Rightarrow> bool \<Rightarrow> 'x anndata option \<Rightarrow> string \<Rightarrow> error + 'x anndata" where
  "latent_directions self method get_confidence adata_arg key_added =
     (let adata = (case adata_arg of None \<Rightarrow> self_adata self | Some d \<Rightarrow> d);
          terms_weights = expr_L_weight (self_model self)
      in
      ebind (if method = ''sum'' then Inr (directions_sum terms_weights, None)
             else if method = ''counts''
             then ebind (directions_counts terms_weights)
                    (\<lambda>(signs, confidence). Inr (signs, Some confidence))
             else Inl (ValueError ''Unrecognized method for getting the latent direction.''))
        (\<lambda>(signs, confidence).
           let adata = adata\<lparr>uns := (uns adata)(key_added \<mapsto> UArray signs)\<rparr>
           in Inr (case confidence of
                     Some c \<Rightarrow>
                       if get_confidence
                       then adata\<lparr>uns := (uns adata)(key_added @ ''_confindence'' \<mapsto> UArray c)\<rparr>
                       else adata
                   | None \<Rightarrow> adata)))"

section \<open>Selecting cells of a dataset\<close>

text \<open>
  \<open>adata[idx]\<close> for a list of row positions: the rows of \<open>X\<close>, the cell names and
  every column of \<open>obs\<close> are taken at these positions; genes and the auxiliary
  store stay.  A position outside the dataset is an \<open>IndexError\<close>.
\<close>

definition take_rows :: "'x anndata \<Rightarrow> nat list \<Rightarrow> error + 'x anndata" where
  "take_rows a idx =
     (if list_all (\<lambda>i. i < length (obs_names a)) idx
      then Inr (a\<lparr>X := map (\<lambda>i. X a ! i) idx,
                  obs_names := map (\<lambda>i. obs_names a ! i) idx,
                  obs := (\<lambda>k. map_option (\<lambda>col. map (\<lambda>i. col ! i) idx) (obs a k))\<rparr>)
      else Inl (IndexError ''index out of range''))"

fun index_of :: "'a \<Rightarrow> 'a list \<Rightarrow> nat option" where
  "index_of x [] = None"
| "index_of x (y # ys) = (if x = y then Some 0 else map_option Suc (index_of x ys))"

text \<open>\<open>adata[names]\<close> for a list of cell names: an unknown name is a \<open>KeyError\<close>.\<close>

fun positions_of_names :: "string list \<Rightarrow> string list \<Rightarrow> error + nat list" where
  "positions_of_names known [] = Inr []"
| "positions_of_names known (n # ns) =
     (case index_of n known of
        None \<Rightarrow> Inl (KeyError n)
      | Some i \<Rightarrow> ebind (positions_of_names known ns) (\<lambda>rest. Inr (i # rest)))"

text \<open>\<open>adata[mask]\<close> for a boolean column over the cells: the positions that are set.\<close>

definition true_positions :: "bool list \<Rightarrow> nat list" where
  "true_positions bs = map fst (filter snd (zip [0..<length bs] bs))"

definition count_true :: "bool list \<Rightarrow> nat" where
  "count_true bs = length (filter id bs)"

definition obs_column :: "'x anndata \<Rightarrow> string option \<Rightarrow> error + string list" where
  "obs_column a key =
     (case key of
        None \<Rightarrow> Inl (KeyError ''None'')
      | Some k \<Rightarrow> (case obs a k of None \<Rightarrow> Inl (KeyError k) | Some col \<Rightarrow> Inr col))"

section \<open>Differential latent activity\<close>

datatype groups_arg =
    GroupsKey string
  | GroupsDict "(string \<times> string list) list"
  | GroupsOther

datatype comparison_arg = CompStr string | CompList "string list"

text \<open>\<open>set(comparison)\<close>: of a string, its characters as one-character strings.\<close>

definition comparison_set :: "comparison_arg \<Rightarrow> string set" where
  "comparison_set c = (case c of CompStr s \<Rightarrow> set (map (\<lambda>ch. [ch]) s) | CompList l \<Rightarrow> set l)"

text \<open>\<open>cat in comparison\<close>: a substring test on a string, membership in a list.\<close>

definition in_comparison :: "string \<Rightarrow> comparison_arg \<Rightarrow> bool" where
  "in_comparison cat c = (case c of CompStr s \<Rightarrow> sublist cat s | CompList l \<Rightarrow> cat \<in> set l)"

text \<open>
  Lines 248-250: the category column of the subset built from a dictionary of groups.
  It starts unset (NaN, here \<open>None\<close>); each group then labels the cells it lists.
\<close>

fun assign_groups ::
  "string list \<Rightarrow> (string \<times> string list) list \<Rightarrow> string option list \<Rightarrow> string option list" where
  "assign_groups names [] col = col"
| "assign_groups names ((grp, cells) # rest) col =
     assign_groups names rest
       (map (\<lambda>(n, c). if n \<in> set cells then Some grp else c) (zip names col))"

text \<open>
  Lines 238-252: the dataset to work on, the category of each of its cells, and the
  categories in the order the loop visits them.  For a dictionary of groups the dataset
  is restricted to the listed cells, in the order listed; when a cell is listed twice,
  the index of the category column has a repeated label, and the assignment of line 250
  raises pandas' \<open>InvalidIndexError\<close>.
\<close>

definition resolve_groups ::
  "'x anndata \<Rightarrow> groups_arg \<Rightarrow> error + ('x anndata \<times> string option list \<times> string list)" where
  "resolve_groups adata groups =
     (case groups of
        GroupsKey g \<Rightarrow>
          (case obs adata g of
             None \<Rightarrow> Inl (KeyError g)
           | Some cats_col \<Rightarrow> Inr (adata, map Some cats_col, unique cats_col))
      | GroupsDict d \<Rightarrow>
          (let cats = map fst d;
               all_cells = concat (map snd d)
           in ebind (positions_of_names (obs_names adata) all_cells) (\<lambda>idx.
              ebind (take_rows adata idx) (\<lambda>adata.
              if \<not> distinct (obs_names adata)
              then Inl (InvalidIndexError
                          ''Reindexing only valid with uniquely valued Index objects'')
              else
                Inr (adata,
                     assign_groups (obs_names adata) d (map (\<lambda>n. None) (obs_names adata)),
                     cats))))
      | GroupsOther \<Rightarrow> Inl (ValueError ''groups should be a string or a dict.''))"

text \<open>
  Elementwise operations on two arrays.  The operands here are the two samples of one
  encoder, of one shape; operands of different shapes end in a \<open>ValueError\<close>.
\<close>

definition zip_arrays ::
  "('a \<Rightarrow> 'b \<Rightarrow> 'c) \<Rightarrow> 'a ndarray2 \<Rightarrow> 'b ndarray2 \<Rightarrow> error + 'c ndarray2" where
  "zip_arrays f a b =
     (if shape0 a = shape0 b \<and> shape1 a = shape1 b
      then Inr \<lparr>shape0 = shape0 a, shape1 = shape1 a,
                entry = (\<lambda>i j. f (entry a i j) (entry b i j))\<rparr>
      else Inl (ValueError ''operands could not be broadcast together''))"

definition map_array :: "('a \<Rightarrow> 'b) \<Rightarrow> 'a ndarray2 \<Rightarrow> 'b ndarray2" where
  "map_array f a = \<lparr>shape0 = shape0 a, shape1 = shape1 a, entry = (\<lambda>i j. f (entry a i j))\<rparr>"

text \<open>
  \<open>z *= directions\<close>: the one-dimensional \<open>directions\<close> is multiplied into every row;
  it must have one entry per column, or a single entry.
\<close>

definition mul_directions :: "float ndarray2 \<Rightarrow> float list \<Rightarrow> error + float ndarray2" where
  "mul_directions z d =
     (if length d = shape1 z
      then Inr (z\<lparr>entry := (\<lambda>i j. fmul (entry z i j) (d ! j))\<rparr>)
      else if length d = 1
      then Inr (z\<lparr>entry := (\<lambda>i j. fmul (entry z i j) (d ! 0))\<rparr>)
      else Inl (ValueError ''operands could not be broadcast together''))"

text \<open>
  \<open>z[:, select_terms]\<close> for a list of column indices; a negative index counts from
  the end, an index outside the columns is an \<open>IndexError\<close>.
\<close>

definition select_columns :: "float ndarray2 \<Rightarrow> int list \<Rightarrow> error + float ndarray2" where
  "select_columns z sel =
     (let n = int (shape1 z);
          cols = map (\<lambda>t. nat (if t < 0 then n + t else t)) sel
      in if list_all (\<lambda>t. - n \<le> t \<and> t < n) sel
         then Inr \<lparr>shape0 = shape0 z, shape1 = length sel, entry = (\<lambda>i j. entry z i (cols ! j))\<rparr>
         else Inl (IndexError ''index is out of bounds for axis 1''))"

text \<open>
  \<open>if directions is not None: z *= directions\<close>, with \<open>directions\<close> as read from
  the auxiliary store: anything but an array cannot be multiplied.
\<close>

definition apply_directions :: "uns_value option \<Rightarrow> float ndarray2 \<Rightarrow> error + float ndarray2" where
  "apply_directions directions z =
     (case directions of
        None \<Rightarrow> Inr z
      | Some (UArray d) \<Rightarrow> mul_directions z d
      | Some _ \<Rightarrow> Inl (TypeError ''unsupported operand type(s) for *=''))"

definition apply_select :: "int list option \<Rightarrow> float ndarray2 \<Rightarrow> error + float ndarray2" where
  "apply_select select_terms z =
     (case select_terms of None \<Rightarrow> Inr z | Some sel \<Rightarrow> select_columns z sel)"

text \<open>\<open>np.abs(z).sum(0) == 0\<close>, per column.\<close>

definition abs_sum0 :: "float ndarray2 \<Rightarrow> float list" where
  "abs_sum0 z = map (\<lambda>j. fsum (map fabs (column z j))) [0..<shape1 z]"

definition zero_columns :: "float ndarray2 \<Rightarrow> bool list" where
  "zero_columns z = map (\<lambda>s. feq s (Fin 0)) (abs_sum0 z)"

text \<open>\<open>np.mean(to_reduce, axis=0)\<close>; a boolean counts as 1 or 0.\<close>

definition mean0 :: "float ndarray2 \<Rightarrow> float list" where
  "mean0 a = map (\<lambda>j. fmean (column a j)) [0..<shape1 a]"

definition float_of_bool :: "bool \<Rightarrow> float" where
  "float_of_bool b = (if b then Fin 1 else Fin 0)"

text \<open>Lines 329-338: the scores of one category from \<open>p_h0\<close> and the zero mask.\<close>

definition bayes_scores :: "float list \<Rightarrow> bool list \<Rightarrow> enrich_scores" where
  "bayes_scores p0 zeros_mask =
     (let p1 = map (\<lambda>p. fsub (Fin 1) p) p0;
          epsilon = Fin (1 / 10 ^ 12);
          b = map (\<lambda>(x, y). fsub (flog (fadd x epsilon)) (flog (fadd y epsilon))) (zip p0 p1);
          p0 = mask_assign zeros_mask (Fin 0) p0;
          p1 = mask_assign zeros_mask (Fin 0) p1;
          b = mask_assign zeros_mask (Fin 0) b
      in \<lparr>p_h0 = p0, p_h1 = p1, bf = b\<rparr>)"

text \<open>Lines 297-307 and 329-338, \<open>exact=False\<close>: \<open>z0\<close> and \<open>z1\<close> are the two samples.\<close>

definition sampled_scores ::
  "uns_value option \<Rightarrow> int list option \<Rightarrow> float ndarray2 \<Rightarrow> float ndarray2
     \<Rightarrow> error + enrich_scores" where
  "sampled_scores directions select_terms z0 z1 =
     ebind (apply_directions directions z0) (\<lambda>z0.
     ebind (apply_directions directions z1) (\<lambda>z1.
     ebind (apply_select select_terms z0) (\<lambda>z0.
     ebind (apply_select select_terms z1) (\<lambda>z1.
     ebind (zip_arrays fgt z0 z1) (\<lambda>to_reduce.
     let zeros_mask = map (\<lambda>(x, y). x \<or> y) (zip (zero_columns z0) (zero_columns z1))
     in Inr (bayes_scores (mean0 (map_array float_of_bool to_reduce)) zeros_mask))))))"

text \<open>Line 324: the standardized difference of the means.\<close>

definition std_diff ::
  "float ndarray2 \<Rightarrow> float ndarray2 \<Rightarrow> float ndarray2 \<Rightarrow> float ndarray2
     \<Rightarrow> error + float ndarray2" where
  "std_diff means0 vars0 means1 vars1 =
     ebind (zip_arrays fsub means1 means0) (\<lambda>num.
     ebind (zip_arrays fadd vars0 vars1) (\<lambda>vsum.
     zip_arrays fdiv num (map_array (\<lambda>v. fsqrt (fmul (Fin 2) v)) vsum)))"

text \<open>Lines 324-325: \<open>to_reduce\<close> of the exact mode.\<close>

definition exact_to_reduce ::
  "float ndarray2 \<Rightarrow> float ndarray2 \<Rightarrow> float ndarray2 \<Rightarrow> float ndarray2
     \<Rightarrow> error + float ndarray2" where
  "exact_to_reduce means0 vars0 means1 vars1 =
     ebind (std_diff means0 vars0 means1 vars1) (\<lambda>z.
     Inr (map_array (\<lambda>v. fmul (Fin 0.5) (ferfc v)) z))"

text \<open>
  Lines 311-338, \<open>exact=True\<close>: each sample is a pair of means and variances.
\<close>

definition exact_scores ::
  "uns_value option \<Rightarrow> int list option \<Rightarrow> float ndarray2 \<times> float ndarray2
     \<Rightarrow> float ndarray2 \<times> float ndarray2 \<Rightarrow> error + enrich_scores" where
  "exact_scores directions select_terms z0 z1 =
     (let (means0, vars0) = z0; (means1, vars1) = z1 in
      ebind (apply_directions directions means0) (\<lambda>means0.
      ebind (apply_directions directions means1) (\<lambda>means1.
      ebind (apply_select select_terms means0) (\<lambda>means0.
      ebind (apply_select select_terms means1) (\<lambda>means1.
      ebind (apply_select select_terms vars0) (\<lambda>vars0.
      ebind (apply_select select_terms vars1) (\<lambda>vars1.
      ebind (exact_to_reduce means0 vars0 means1 vars1) (\<lambda>to_reduce.
      let zeros_mask = map (\<lambda>(x, y). x \<or> y) (zip (zero_columns means0) (zero_columns means1))
      in Inr (bayes_scores (mean0 to_reduce) zeros_mask)))))))))"

text \<open>
  The collaborators of \<open>latent_enrich\<close>, with the state \<open>'r\<close> of the random number
  generators passed through them: the raw draws of \<open>np.random.choice(a, size)\<close>, and
  the encoder \<open>self.get_latent(x, c, mean=False, mean_var=...)\<close>, which returns one
  array of latent samples for \<open>mean_var=False\<close> and a pair of means and variances for
  \<open>mean_var=True\<close>.
\<close>

record ('x, 'r) collaborators =
  random_draws :: "nat \<Rightarrow> nat \<Rightarrow> 'r \<Rightarrow> nat list \<times> 'r"
  get_latent :: "'x list \<Rightarrow> string list \<Rightarrow> 'r \<Rightarrow> error + (float ndarray2 \<times> 'r)"
  get_latent_mean_var ::
    "'x list \<Rightarrow> string list \<Rightarrow> 'r \<Rightarrow> error + ((float ndarray2 \<times> float ndarray2) \<times> 'r)"

text \<open>\<open>np.random.choice(a, size)\<close> refuses to draw from an empty range.\<close>

definition random_choice ::
  "('x, 'r) collaborators \<Rightarrow> nat \<Rightarrow> nat \<Rightarrow> 'r \<Rightarrow> error + (nat list \<times> 'r)" where
  "random_choice C a n r =
     (if a = 0 \<and> n > 0
      then Inl (ValueError ''a must be greater than 0 unless no samples are taken'')
      else Inr (random_draws C a n r))"

text \<open>Lines 259-260: a single category name becomes a one-element list.\<close>

definition normalise_comparison :: "comparison_arg \<Rightarrow> comparison_arg" where
  "normalise_comparison c =
     (case c of
        CompStr s \<Rightarrow> if s \<noteq> ''rest'' then CompList [s] else c
      | CompList l \<Rightarrow> c)"

text \<open>Lines 267-270: the cells to compare with.\<close>

definition others_of :: "comparison_arg \<Rightarrow> string option list \<Rightarrow> bool list \<Rightarrow> error + bool list" where
  "others_of comparison cats_col cat_mask =
     (if comparison = CompStr ''rest'' then Inr (map Not cat_mask)
      else case comparison of
             CompList l \<Rightarrow>
               Inr (map (\<lambda>c. case c of None \<Rightarrow> False | Some v \<Rightarrow> v \<in> set l) cats_col)
           | CompStr s \<Rightarrow> Inl (TypeError ''only list-like objects are allowed to be passed to isin()''))"

text \<open>
  Lines 266-281, for one category \<open>cat\<close>: the sampled cells of the category and of
  the cells it is compared with, and the directions.
\<close>

definition category_groups ::
  "('x, 'r) collaborators \<Rightarrow> 'x anndata \<Rightarrow> string option list \<Rightarrow> comparison_arg \<Rightarrow> nat
     \<Rightarrow> bool \<Rightarrow> string \<Rightarrow> string \<Rightarrow> 'r
     \<Rightarrow> error + ('x anndata \<times> 'x anndata \<times> uns_value option \<times> 'r)" where
  "category_groups C adata cats_col comparison n_sample use_directions directions_key cat r =
     (let cat_mask = map (\<lambda>c. c = Some cat) cats_col in
      ebind (others_of comparison cats_col cat_mask) (\<lambda>others_mask.
      ebind (random_choice C (count_true cat_mask) n_sample r) (\<lambda>(choice_1, r).
      ebind (random_choice C (count_true others_mask) n_sample r) (\<lambda>(choice_2, r).
      ebind (ebind (take_rows adata (true_positions cat_mask)) (\<lambda>a. take_rows a choice_1))
        (\<lambda>adata_cat.
      ebind (ebind (take_rows adata (true_positions others_mask)) (\<lambda>a. take_rows a choice_2))
        (\<lambda>adata_others.
      ebind (if use_directions
             then (case uns adata directions_key of
                     None \<Rightarrow> Inl (KeyError directions_key)
                   | Some d \<Rightarrow> Inr (Some d))
             else Inr None) (\<lambda>directions.
      Inr (adata_cat, adata_others, directions, r))))))))"

text \<open>
  Lines 283-294: the two calls of the encoder \<open>enc\<close>, which is \<open>get_latent\<close> with
  \<open>mean_var=False\<close> or with \<open>mean_var=True\<close>.
\<close>

definition encode_groups ::
  "('x list \<Rightarrow> string list \<Rightarrow> 'r \<Rightarrow> error + ('z \<times> 'r)) \<Rightarrow> 'x EXPIMAP \<Rightarrow> 'x anndata
     \<Rightarrow> 'x anndata \<Rightarrow> 'r \<Rightarrow> error + ('z \<times> 'z \<times> 'r)" where
  "encode_groups enc self adata_cat adata_others r =
     ebind (obs_column adata_cat (self_condition_key self)) (\<lambda>c0.
     ebind (enc (X adata_cat) c0 r) (\<lambda>(z0, r).
     ebind (obs_column adata_others (self_condition_key self)) (\<lambda>c1.
     ebind (enc (X adata_others) c1 r) (\<lambda>(z1, r).
     Inr (z0, z1, r)))))"

text \<open>Lines 266-338: the body of the loop, for one category \<open>cat\<close>.\<close>

definition enrich_category ::
  "('x, 'r) collaborators \<Rightarrow> 'x EXPIMAP \<Rightarrow> 'x anndata \<Rightarrow> string option list \<Rightarrow> comparison_arg
     \<Rightarrow> nat \<Rightarrow> bool \<Rightarrow> string \<Rightarrow> int list option \<Rightarrow> bool \<Rightarrow> string \<Rightarrow> 'r
     \<Rightarrow> error + (enrich_scores \<times> 'r)" where
  "enrich_category C self adata cats_col comparison n_sample use_directions directions_key
     select_terms exact cat r =
     ebind (category_groups C adata cats_col comparison n_sample use_directions directions_key
              cat r) (\<lambda>(adata_cat, adata_others, directions, r).
     if \<not> exact
     then
       ebind (encode_groups (get_latent C) self adata_cat adata_others r) (\<lambda>(z0, z1, r).
       ebind (sampled_scores directions select_terms z0 z1) (\<lambda>sc. Inr (sc, r)))
     else
       ebind (encode_groups (get_latent_mean_var C) self adata_cat adata_others r)
         (\<lambda>(z0, z1, r).
       ebind (exact_scores directions select_terms z0 z1) (\<lambda>sc. Inr (sc, r))))"

text \<open>
  Lines 262-338: the loop over the categories; \<open>body\<close> is the loop body, \<open>scores\<close>
  the dictionary filled so far.
\<close>

fun enrich_loop ::
  "(string \<Rightarrow> 'r \<Rightarrow> error + (enrich_scores \<times> 'r)) \<Rightarrow> comparison_arg \<Rightarrow> string list
     \<Rightarrow> (string \<Rightarrow> enrich_scores option) \<Rightarrow> 'r
     \<Rightarrow> error + ((string \<Rightarrow> enrich_scores option) \<times> 'r)" where
  "enrich_loop body comparison [] scores r = Inr (scores, r)"
| "enrich_loop body comparison (cat # cats) scores r =
     (if in_comparison cat comparison then enrich_loop body comparison cats scores r
      else ebind (body cat r) (\<lambda>(sc, r).
           enrich_loop body comparison cats (scores(cat \<mapsto> sc)) r))"

text \<open>
  \<open>latent_enrich\<close>.  Nothing is written before the last line, so an exception leaves
  every dataset as it was: the result is then the exception alone.  On success the
  result is the dataset that was written to (the one the groups were resolved to) and
  the state of the random number generators.
\<close>

definition latent_enrich ::
  "('x, 'r) collaborators \<Rightarrow> 'x EXPIMAP \<Rightarrow> groups_arg \<Rightarrow> comparison_arg \<Rightarrow> nat \<Rightarrow> bool
     \<Rightarrow> string \<Rightarrow> int list option \<Rightarrow> 'x anndata option \<Rightarrow> bool \<Rightarrow> string \<Rightarrow> 'r
     \<Rightarrow> error + ('x anndata \<times> 'r)" where
  "latent_enrich C self groups comparison n_sample use_directions directions_key
     select_terms adata_arg exact key_added r =
     (let adata = (case adata_arg of None \<Rightarrow> self_adata self | Some d \<Rightarrow> d) in
      ebind (resolve_groups adata groups) (\<lambda>(adata, cats_col, cats).
      if comparison \<noteq> CompStr ''rest'' \<and> comparison_set comparison \<subseteq> set cats
      then Inl (ValueError ''comparison should be 'rest' or among the passed groups'')
      else
        let comparison = normalise_comparison comparison in
        ebind (enrich_loop
                 (enrich_category C self adata cats_col comparison n_sample use_directions
                    directions_key select_terms exact)
                 comparison cats Map.empty r) (\<lambda>(scores, r).
        Inr (adata\<lparr>uns := (uns adata)(key_added \<mapsto> UScores scores)\<rparr>, r))))"

section \<open>Query extension\<close>

text \<open>
  The keyword dictionary \<open>params\<close> handed to the base surgery mechanism; an entry that
  may be absent is an option.  \<open>'m\<close> is the reference model or its path.
\<close>

record ('x, 'm) surgery_params =
  par_adata :: "'x anndata"
  par_reference_model :: 'm
  par_freeze :: bool
  par_freeze_expression :: bool
  par_remove_dropout :: bool
  par_n_ext :: "int option"
  par_n_ext_m :: "int option"
  par_ext_mask :: "int array_arg option"
  par_soft_ext_mask :: "bool option"

text \<open>Lines 356-370: the dictionary, or the \<open>ValueError\<close> of line 368.\<close>

definition build_params ::
  "'x anndata \<Rightarrow> 'm \<Rightarrow> bool \<Rightarrow> bool \<Rightarrow> bool \<Rightarrow> int option \<Rightarrow> int option
     \<Rightarrow> int array_arg option \<Rightarrow> bool \<Rightarrow> error + ('x, 'm) surgery_params" where
  "build_params adata reference_model freeze freeze_expression remove_dropout
     new_n_ext new_n_ext_m new_ext_mask new_soft_ext_mask =
     (let params = \<lparr>par_adata = adata, par_reference_model = reference_model,
                     par_freeze = freeze, par_freeze_expression = freeze_expression,
                     par_remove_dropout = remove_dropout, par_n_ext = None,
                     par_n_ext_m = None, par_ext_mask = None, par_soft_ext_mask = None\<rparr>;
          params = (case new_n_ext of None \<Rightarrow> params | Some n \<Rightarrow> params\<lparr>par_n_ext := Some n\<rparr>)
      in case new_n_ext_m of
           None \<Rightarrow> Inr params
         | Some n \<Rightarrow>
             (case new_ext_mask of
                None \<Rightarrow> Inl (ValueError ''Provide new ext_mask'')
              | Some em \<Rightarrow>
                  Inr (params\<lparr>par_n_ext_m := Some n, par_ext_mask := Some em,
                              par_soft_ext_mask := Some new_soft_ext_mask\<rparr>)))"

text \<open>Lines 375-379: the extension parameters are made trainable again.\<close>

definition unfreeze_ext_parameters :: "(string \<times> bool) list \<Rightarrow> (string \<times> bool) list" where
  "unfreeze_ext_parameters ps =
     map (\<lambda>(name, requires_grad).
            let g = (if sublist ''ext_L.weight'' name \<or> sublist ''ext_L_m.weight'' name
                     then True else requires_grad);
                g = (if sublist ''expand_mean_encoder'' name \<or> sublist ''expand_var_encoder'' name
                     then True else g)
            in (name, g)) ps"

text \<open>
  \<open>load_query_data\<close>.  The base surgery mechanism \<open>super().load_query_data\<close> is an
  external collaborator and a parameter here; \<open>'w\<close> is everything it may read or
  change (files, the reference model), passed in and returned.
\<close>

definition load_query_data ::
  "(('x, 'm) surgery_params \<Rightarrow> 'w \<Rightarrow> (error + 'x EXPIMAP) \<times> 'w) \<Rightarrow> 'x anndata \<Rightarrow> 'm
     \<Rightarrow> bool \<Rightarrow> bool \<Rightarrow> bool \<Rightarrow> bool \<Rightarrow> int option \<Rightarrow> int option \<Rightarrow> int array_arg option
     \<Rightarrow> bool \<Rightarrow> 'w \<Rightarrow> (error + 'x EXPIMAP) \<times> 'w" where
  "load_query_data base adata reference_model freeze freeze_expression unfreeze_ext
     remove_dropout new_n_ext new_n_ext_m new_ext_mask new_soft_ext_mask w =
     (case build_params adata reference_model freeze freeze_expression remove_dropout
             new_n_ext new_n_ext_m new_ext_mask new_soft_ext_mask of
        Inl e \<Rightarrow> (Inl e, w)
      | Inr params \<Rightarrow>
          (case base params w of
             (Inl e, w') \<Rightarrow> (Inl e, w')
           | (Inr new_model, w') \<Rightarrow>
               (Inr (if freeze \<and> unfreeze_ext
                     then new_model\<lparr>self_model := (self_model new_model)
                            \<lparr>named_parameters :=
                               unfreeze_ext_parameters (named_parameters (self_model new_model))\<rparr>\<rparr>
                     else new_model), w')))"

section \<open>Notions used in the statements\<close>

text \<open>The number of rows of a mask argument.\<close>

definition mask_rows :: "'a array_arg \<Rightarrow> nat" where
  "mask_rows m = (case m of AsList l \<Rightarrow> length l | AsArray a \<Rightarrow> shape0 a)"

text \<open>
  A sample as the zero test and the comparison see it: multiplied by the directions,
  then restricted to the selected terms.
\<close>

definition prepared ::
  "uns_value option \<Rightarrow> int list option \<Rightarrow> float ndarray2 \<Rightarrow> error + float ndarray2" where
  "prepared directions select_terms z =
     ebind (apply_directions directions z) (apply_select select_terms)"

text \<open>
  The two samples of a category as the zero test and the comparison see them, for
  \<open>exact=False\<close>: encoded at the state \<open>r\<close> of the random number generators, then
  prepared.
\<close>

definition tested_sampled ::
  "('x, 'r) collaborators \<Rightarrow> 'x EXPIMAP \<Rightarrow> 'x anndata \<Rightarrow> string option list \<Rightarrow> comparison_arg
     \<Rightarrow> nat \<Rightarrow> bool \<Rightarrow> string \<Rightarrow> int list option \<Rightarrow> string \<Rightarrow> 'r
     \<Rightarrow> error + (float ndarray2 \<times> float ndarray2)" where
  "tested_sampled C self adata cats_col comparison n_sample use_directions directions_key
     select_terms cat r =
     ebind (category_groups C adata cats_col comparison n_sample use_directions directions_key
              cat r) (\<lambda>(adata_cat, adata_others, directions, r).
     ebind (encode_groups (get_latent C) self adata_cat adata_others r) (\<lambda>(z0, z1, r).
     ebind (prepared directions select_terms z0) (\<lambda>b0.
     ebind (prepared directions select_terms z1) (\<lambda>b1.
     Inr (b0, b1)))))"

text \<open>
  The same for \<open>exact=True\<close>: the prepared means \<open>b0\<close>, \<open>b1\<close> and the selected
  variances \<open>w0\<close>, \<open>w1\<close> of the two groups, as \<open>(b0, w0, b1, w1)\<close>.
\<close>

definition tested_exact ::
  "('x, 'r) collaborators \<Rightarrow> 'x EXPIMAP \<Rightarrow> 'x anndata \<Rightarrow> string option list \<Rightarrow> comparison_arg
     \<Rightarrow> nat \<Rightarrow> bool \<Rightarrow> string \<Rightarrow> int list option \<Rightarrow> string \<Rightarrow> 'r
     \<Rightarrow> error + (float ndarray2 \<times> float ndarray2 \<times> float ndarray2 \<times> float ndarray2)" where
  "tested_exact C self adata cats_col comparison n_sample use_directions directions_key
     select_terms cat r =
     ebind (category_groups C adata cats_col comparison n_sample use_directions directions_key
              cat r) (\<lambda>(adata_cat, adata_others, directions, r).
     ebind (encode_groups (get_latent_mean_var C) self adata_cat adata_others r)
       (\<lambda>((means0, vars0), (means1, vars1), r).
     ebind (prepared directions select_terms means0) (\<lambda>b0.
     ebind (prepared directions select_terms means1) (\<lambda>b1.
     ebind (apply_select select_terms vars0) (\<lambda>w0.
     ebind (apply_select select_terms vars1) (\<lambda>w1.
     Inr (b0, w0, b1, w1)))))))"

text \<open>
  The values of term \<open>j\<close>, cell by cell, in the prepared means and the selected
  variances \<open>(b0, w0, b1, w1)\<close> of the two groups.
\<close>

definition tested_columns ::
  "nat \<Rightarrow> float ndarray2 \<times> float ndarray2 \<times> float ndarray2 \<times> float ndarray2
     \<Rightarrow> float list \<times> float list \<times> float list \<times> float list" where
  "tested_columns j t =
     (case t of (b0, w0, b1, w1) \<Rightarrow> (column b0 j, column w0 j, column b1 j, column w1 j))"

text \<open>The scores stored for a category under a key of the auxiliary store.\<close>

definition stored_scores :: "'x anndata \<Rightarrow> string \<Rightarrow> string \<Rightarrow> enrich_scores option" where
  "stored_scores d key cat = (case uns d key of Some (UScores scores) \<Rightarrow> scores cat | _ \<Rightarrow> None)"

text \<open>The names of the genes whose entry in a mask row is 1.\<close>

definition genes_of_row :: "string list \<Rightarrow> int list \<Rightarrow> string list" where
  "genes_of_row names r = map fst (filter (\<lambda>(g, v). v = 1) (zip names r))"

text \<open>The names of the genes whose entry in a mask row is not 0.\<close>

definition genes_nonzero :: "string list \<Rightarrow> int list \<Rightarrow> string list" where
  "genes_nonzero names r = map fst (filter (\<lambda>(g, v). v \<noteq> 0) (zip names r))"

section \<open>Example data\<close>

text \<open>
  A dataset of two cells and two genes, a network with one term whose two weights are
  positive, and a constructor that returns this network.
\<close>

definition example_adata :: "unit anndata" where
  "example_adata =
     \<lparr>X = [(), ()], obs_names = [''c1'', ''c2''], var_names = [''g1'', ''g2''],
      obs = [''cell_type'' \<mapsto> [''A'', ''B'']], varm = Map.empty, uns = Map.empty\<rparr>"

definition example_net :: expiMap_net where
  "example_net =
     \<lparr>expr_L_weight = \<lparr>shape0 = 2, shape1 = 1, entry = (\<lambda>i j. Fin 1)\<rparr>,
      named_parameters = []\<rparr>"

definition example_expiMap :: "expiMap_args \<Rightarrow> error + expiMap_net" where
  "example_expiMap args = Inr example_net"

text \<open>One term, and one unconstrained extension dimension.\<close>

definition example_args_ext :: "unit init_args" where
  "example_args_ext =
     (init_defaults example_adata)
       \<lparr>init_mask := Some (AsList [[1, 0]]), init_n_ext := 1\<rparr>"

text \<open>One term, one masked extension dimension, and HSIC regularisation asked for.\<close>

definition example_args_hsic :: "unit init_args" where
  "example_args_hsic =
     (init_defaults example_adata)
       \<lparr>init_mask := Some (AsList [[1, 0]]), init_n_ext_m := 1, init_use_hsic := True,
        init_ext_mask := Some (AsList [[0, 1]])\<rparr>"

definition example_self :: "unit EXPIMAP" where
  "example_self = projr (EXPIMAP_init example_expiMap example_args_ext)"

text \<open>Collaborators for the example: every draw is cell 0, every latent value is 1.\<close>

definition example_collaborators :: "(unit, unit) collaborators" where
  "example_collaborators =
     \<lparr>random_draws = (\<lambda>a n r. (replicate n 0, r)),
      get_latent = (\<lambda>x c r. Inr (\<lparr>shape0 = length x, shape1 = 1, entry = (\<lambda>i j. Fin 1)\<rparr>, r)),
      get_latent_mean_var =
        (\<lambda>x c r. Inr ((\<lparr>shape0 = length x, shape1 = 1, entry = (\<lambda>i j. Fin 1)\<rparr>,
                         \<lparr>shape0 = length x, shape1 = 1, entry = (\<lambda>i j. Fin 1)\<rparr>), r))\<rparr>"

text \<open>The example model with two term names stored in the dataset, for one mask row.\<close>

definition example_self_terms :: "unit EXPIMAP" where
  "example_self_terms =
     example_self\<lparr>self_adata := example_adata\<lparr>uns := [''terms'' \<mapsto> UStrList [''T1'', ''T2'']]\<rparr>\<rparr>"

text \<open>
  Decoder weights for two genes and two terms: the first term has no non-zero weight,
  the second one positive and one negative weight.
\<close>

definition example_weights :: "float ndarray2" where
  "example_weights =
     \<lparr>shape0 = 2, shape1 = 2,
      entry = (\<lambda>i j. if j = 0 then Fin 0 else if i = 0 then Fin 1 else Fin (- 1))\<rparr>"

definition example_self_weights :: "unit EXPIMAP" where
  "example_self_weights =
     example_self\<lparr>self_model := example_net\<lparr>expr_L_weight := example_weights\<rparr>\<rparr>"

text \<open>An array of two rows and one column whose entries are all 0.\<close>

definition example_zero :: "float ndarray2" where
  "example_zero = \<lparr>shape0 = 2, shape1 = 1, entry = (\<lambda>i j. Fin 0)\<rparr>"

text \<open>The example model with a single term column whose weights are all 0.\<close>

definition example_self_zero :: "unit EXPIMAP" where
  "example_self_zero =
     example_self\<lparr>self_model := example_net\<lparr>expr_L_weight := example_zero\<rparr>\<rparr>"

text \<open>
  A dataset of two cells with the features 0 and 1, of the categories \<open>A\<close> and \<open>B\<close>
  and of one batch, and a model on it with the batch as condition.
\<close>

definition example_cells :: "nat anndata" where
  "example_cells =
     \<lparr>X = [0, 1], obs_names = [''c1'', ''c2''], var_names = [''g1'', ''g2''],
      obs = [''cell_type'' \<mapsto> [''A'', ''B''], ''batch'' \<mapsto> [''b1'', ''b1'']],
      varm = Map.empty, uns = Map.empty\<rparr>"

definition example_self_cells :: "nat EXPIMAP" where
  "example_self_cells =
     projr (EXPIMAP_init example_expiMap
              ((init_defaults example_cells)
                 \<lparr>init_mask := Some (AsList [[1, 0]]), init_condition_key := Some ''batch''\<rparr>))"

text \<open>
  An encoder with one latent term: the latent sample of a cell is its feature, the
  latent mean and variance of every cell are 1.  Every draw is the first cell.
\<close>

definition example_encoder :: "(nat, unit) collaborators" where
  "example_encoder =
     \<lparr>random_draws = (\<lambda>a n r. (replicate n 0, r)),
      get_latent =
        (\<lambda>x c r. Inr (\<lparr>shape0 = length x, shape1 = 1, entry = (\<lambda>i j. Fin (real (x ! i)))\<rparr>, r)),
      get_latent_mean_var =
        (\<lambda>x c r. Inr ((\<lparr>shape0 = length x, shape1 = 1, entry = (\<lambda>i j. Fin 1)\<rparr>,
                         \<lparr>shape0 = length x, shape1 = 1, entry = (\<lambda>i j. Fin 1)\<rparr>), r))\<rparr>"

text \<open>The same with the latent mean of every cell infinite.\<close>

definition example_encoder_inf :: "(nat, unit) collaborators" where
  "example_encoder_inf =
     example_encoder
       \<lparr>get_latent_mean_var :=
          (\<lambda>x c r. Inr ((\<lparr>shape0 = length x, shape1 = 1, entry = (\<lambda>i j. PInf)\<rparr>,
                           \<lparr>shape0 = length x, shape1 = 1, entry = (\<lambda>i j. Fin 1)\<rparr>), r))\<rparr>"

section \<open>Basic facts\<close>

lemma ebind_Inr [simp]: "ebind (Inr v) f = f v"
  by (simp add: ebind_def)

lemma ebind_Inl [simp]: "ebind (Inl e) f = Inl e"
  by (simp add: ebind_def)

lemma ebind_eq_Inr: "ebind r f = Inr y \<longleftrightarrow> (\<exists>v. r = Inr v \<and> f v = Inr y)"
  by (cases r) simp_all

lemma tolist_length [simp]: "length (tolist a) = shape0 a"
  by (simp add: tolist_def)

lemma arg_tolist_rows: "length (arg_tolist m) = mask_rows m"
  by (cases m) (simp_all add: arg_tolist_def mask_rows_def)

section \<open>Construction: latent dimension and HSIC flag\<close>

lemma init_fields:
  assumes "EXPIMAP_init expiMap a = Inr m"
  shows "\<exists>msk. resolve_mask a = Inr msk \<and> self_mask m = arg_tolist msk
           \<and> self_latent_dim m = length (arg_tolist msk)"
    and "self_n_ext m = init_n_ext a" and "self_n_ext_m m = init_n_ext_m a"
    and "self_use_hsic m = (init_use_hsic a \<and> init_n_ext a > 0)"
  using assms
  by (auto simp: EXPIMAP_init_def ebind_eq_Inr Let_def split: prod.splits)

lemma example_ext_result:
  "EXPIMAP_init example_expiMap example_args_ext =
     Inr (projr (EXPIMAP_init example_expiMap example_args_ext))"
  by (simp add: EXPIMAP_init_def example_args_ext_def init_defaults_def resolve_mask_def
        resolve_conditions_def arg_tensor_def array_of_rows_def resolve_ext_mask_def
        example_expiMap_def)

lemma example_hsic_result:
  "EXPIMAP_init example_expiMap example_args_hsic =
     Inr (projr (EXPIMAP_init example_expiMap example_args_hsic))"
  by (simp add: EXPIMAP_init_def example_args_hsic_def init_defaults_def resolve_mask_def
        resolve_conditions_def arg_tensor_def array_of_rows_def resolve_ext_mask_def
        example_expiMap_def)

lemma example_self_fields:
  "self_adata example_self = example_adata" "self_model example_self = example_net"
  "self_mask example_self = [[1, 0]]" "self_condition_key example_self = None"
  by (simp_all add: example_self_def EXPIMAP_init_def example_args_ext_def init_defaults_def
        resolve_mask_def resolve_conditions_def arg_tensor_def array_of_rows_def
        resolve_ext_mask_def example_expiMap_def arg_tolist_def)

text \<open>
  C1, as the code has it: after a successful construction the recorded latent
  dimension \<open>latent_dim_\<close> is the number of rows of the mask, which is also the length
  of the stored \<open>mask_\<close>; the extension sizes are not added to it but recorded beside
  it as \<open>n_ext_\<close> and \<open>n_ext_m_\<close>.
\<close>

theorem latent_dim_is_number_of_mask_rows:
  assumes "EXPIMAP_init expiMap a = Inr m" and "resolve_mask a = Inr msk"
  shows "self_latent_dim m = mask_rows msk \<and> self_latent_dim m = length (self_mask m)
           \<and> self_n_ext m = init_n_ext a \<and> self_n_ext_m m = init_n_ext_m a"
  using init_fields [OF assms(1)] assms(2) by (auto simp: arg_tolist_rows)

text \<open>The example with one mask row and \<open>n_ext = 1\<close>: the latent dimension is 1.\<close>

theorem latent_dim_is_number_of_mask_rows_witness:
  "self_latent_dim (projr (EXPIMAP_init example_expiMap example_args_ext)) = 1
   \<and> self_n_ext (projr (EXPIMAP_init example_expiMap example_args_ext)) = 1"
  using latent_dim_is_number_of_mask_rows [OF example_ext_result, of "AsList [[1, 0]]"]
  by (simp add: resolve_mask_def example_args_ext_def init_defaults_def mask_rows_def)

text \<open>
  C1 as the spec states it fails there: the construction succeeds, and the latent
  dimension 1 is not the sum \<open>1 + 1 + 0\<close> of mask rows and extension sizes.
\<close>

theorem latent_dim_ignores_extensions:
  "\<not> isl (EXPIMAP_init example_expiMap example_args_ext) \<and>
   int (self_latent_dim (projr (EXPIMAP_init example_expiMap example_args_ext)))
     \<noteq> int (mask_rows (AsList [[1, 0 :: int]]))
         + init_n_ext example_args_ext + init_n_ext_m example_args_ext"
  by (simp add: EXPIMAP_init_def example_args_ext_def init_defaults_def resolve_mask_def
        resolve_conditions_def arg_tensor_def array_of_rows_def resolve_ext_mask_def
        example_expiMap_def arg_tolist_def mask_rows_def)

text \<open>
  C7, as the code has it: the stored flag \<open>use_hsic_\<close> is on exactly when
  \<open>use_hsic\<close> was asked for and there is at least one unconstrained extension
  dimension (\<open>n_ext > 0\<close>); the number \<open>n_ext_m\<close> of masked extension dimensions
  plays no part.  In particular the flag is off whenever \<open>use_hsic\<close> is false.
\<close>

theorem hsic_flag_needs_unconstrained_extension:
  assumes "EXPIMAP_init expiMap a = Inr m"
  shows "self_use_hsic m = (init_use_hsic a \<and> init_n_ext a > 0)"
  using init_fields(4) [OF assms] .

text \<open>The example with \<open>use_hsic\<close>, \<open>n_ext = 0\<close> and \<open>n_ext_m = 1\<close>: the flag is off.\<close>

theorem hsic_flag_needs_unconstrained_extension_witness:
  "\<not> self_use_hsic (projr (EXPIMAP_init example_expiMap example_args_hsic))"
  using hsic_flag_needs_unconstrained_extension [OF example_hsic_result]
  by (simp add: example_args_hsic_def init_defaults_def)

text \<open>
  C7 as the spec states it fails there: \<open>use_hsic\<close> is true and an extension
  dimension exists (\<open>n_ext + n_ext_m = 1\<close>), yet the stored flag is off.
\<close>

theorem hsic_flag_off_with_masked_extension_only:
  "\<not> isl (EXPIMAP_init example_expiMap example_args_hsic) \<and>
   init_use_hsic example_args_hsic \<and>
   init_n_ext example_args_hsic + init_n_ext_m example_args_hsic > 0 \<and>
   \<not> self_use_hsic (projr (EXPIMAP_init example_expiMap example_args_hsic))"
  by (simp add: EXPIMAP_init_def example_args_hsic_def init_defaults_def resolve_mask_def
        resolve_conditions_def arg_tensor_def array_of_rows_def resolve_ext_mask_def
        example_expiMap_def)

section \<open>Query extension: the missing extension mask\<close>

text \<open>
  C9: when \<open>new_n_ext_m\<close> is given and \<open>new_ext_mask\<close> is not, \<open>load_query_data\<close>
  fails with the value error of line 368 and leaves the state \<open>w\<close> as it was, whatever
  the base surgery mechanism \<open>base\<close> would do: it is not reached, and no model is
  returned.
\<close>

theorem load_query_data_requires_ext_mask:
  "load_query_data base adata reference_model freeze freeze_expression unfreeze_ext
     remove_dropout new_n_ext (Some n) None new_soft_ext_mask w
   = (Inl (ValueError ''Provide new ext_mask''), w)"
  by (simp add: load_query_data_def build_params_def Let_def)

section \<open>Latent directions\<close>

lemma length_mask_assign [simp]:
  "length (mask_assign bs v xs) = min (length bs) (length xs)"
  by (simp add: mask_assign_def)

lemma mask_assign_nth:
  "i < length bs \<Longrightarrow> i < length xs \<Longrightarrow>
     mask_assign bs v xs ! i = (if bs ! i then v else xs ! i)"
  by (simp add: mask_assign_def)

lemma length_count_nonzero [simp]: "length (count_nonzero w) = shape1 w"
  by (simp add: count_nonzero_def)

lemma length_count_positive [simp]: "length (count_positive w) = shape1 w"
  by (simp add: count_positive_def)

lemma tensor_index_assign_mask:
  assumes "length t \<noteq> 1"
  shows "tensor_index_assign t v xs = Inr (mask_assign t v xs)"
proof (cases t)
  case Nil
  then show ?thesis by (simp add: tensor_index_assign_def)
next
  case (Cons b t')
  with assms obtain c t'' where "t' = c # t''" by (cases t') auto
  with Cons show ?thesis by (simp add: tensor_index_assign_def)
qed

lemma tensor_index_assign_one:
  "tensor_index_assign [False] v [x] = Inr [v]"
  "tensor_index_assign [True] v [x] = Inl (IndexError ''index is out of bounds for axis 0'')"
  by (simp_all add: tensor_index_assign_def)

lemma example_weights_counts:
  "count_nonzero example_weights = [0, 2]" "count_positive example_weights = [0, 1]"
  "shape1 example_weights = 2"
  by (simp_all add: count_nonzero_def count_positive_def column_def example_weights_def
        upt_rec [of _ 2] upt_rec [of _ "Suc 0"] numeral_2_eq_2)

lemma example_weights_directions:
  "directions_counts example_weights = Inr ([Fin 0, Fin 0], [Fin 0, Fin 0])"
  by (simp add: directions_counts_def example_weights_counts tensor_index_assign_mask
        mask_assign_def fsub_def flt_def feq_def)

lemma example_one_column_counts:
  "count_nonzero (expr_L_weight example_net) = [2]"
  "count_positive (expr_L_weight example_net) = [2]"
  "count_nonzero example_zero = [0]" "count_positive example_zero = [0]"
  by (simp_all add: count_nonzero_def count_positive_def column_def example_net_def
        example_zero_def upt_rec [of _ 2] upt_rec [of _ "Suc 0"] numeral_2_eq_2)

lemma example_one_column_directions:
  "directions_counts (expr_L_weight example_net) = Inr ([Fin 0], [Fin 0])"
  "directions_counts example_zero = Inl (IndexError ''index is out of bounds for axis 0'')"
  by (simp_all add: directions_counts_def example_one_column_counts tensor_index_assign_one
        mask_assign_def fsub_def flt_def feq_def)

lemma example_self_models:
  "self_model example_self_weights = example_net\<lparr>expr_L_weight := example_weights\<rparr>"
  "self_adata example_self_weights = example_adata"
  "self_model example_self_zero = example_net\<lparr>expr_L_weight := example_zero\<rparr>"
  "self_adata example_self_zero = example_adata"
  by (simp_all add: example_self_weights_def example_self_zero_def example_self_fields)

text \<open>
  C5, on a weight matrix with a single term column.  With the two positive weights of
  the example, 2 of 2 non-zero weights are positive, so the ratio is 1 and the claim
  gives sign \<open>+1\<close> and confidence 1; but the one-element tensor \<open>num_nz==0\<close> is taken as
  the integer index 0, and \<open>latent_directions\<close> stores sign 0 and confidence 0.  With
  two weights 0 the tensor is taken as the index 1, and the call ends in an
  \<open>IndexError\<close> where the claim gives sign 0 and confidence 0.
\<close>

theorem single_term_column_is_indexed_not_masked:
  "count_nonzero (expr_L_weight (self_model example_self)) = [2] \<and>
   count_positive (expr_L_weight (self_model example_self)) = [2] \<and>
   \<not> isl (latent_directions example_self ''counts'' True None ''directions'') \<and>
   uns (projr (latent_directions example_self ''counts'' True None ''directions''))
     ''directions'' = Some (UArray [Fin 0]) \<and>
   uns (projr (latent_directions example_self ''counts'' True None ''directions''))
     ''directions_confindence'' = Some (UArray [Fin 0]) \<and>
   count_nonzero (expr_L_weight (self_model example_self_zero)) = [0] \<and>
   latent_directions example_self_zero ''counts'' True None ''directions''
     = Inl (IndexError ''index is out of bounds for axis 0'')"
  by (simp add: latent_directions_def example_self_fields example_self_models
        example_one_column_counts example_one_column_directions example_adata_def)

text \<open>
  C6: \<open>latent_directions\<close> with method \<open>counts\<close>, \<open>get_confidence=True\<close> and the key
  \<open>directions\<close> on the example weights with two term columns: the signs are stored
  under \<open>directions\<close>, but the confidence is stored under \<open>directions_confindence\<close>,
  and nothing is stored under \<open>directions_confidence\<close>.
\<close>

theorem confidence_key_is_misspelt:
  "\<not> isl (latent_directions example_self_weights ''counts'' True None ''directions'') \<and>
   uns (projr (latent_directions example_self_weights ''counts'' True None ''directions''))
     ''directions_confidence'' = None \<and>
   uns (projr (latent_directions example_self_weights ''counts'' True None ''directions''))
     ''directions_confindence'' = Some (UArray [Fin 0, Fin 0]) \<and>
   uns (projr (latent_directions example_self_weights ''counts'' True None ''directions''))
     ''directions'' = Some (UArray [Fin 0, Fin 0])"
  by (simp add: latent_directions_def example_self_models example_weights_directions
        example_adata_def)

section \<open>Differential activity: the comparison check\<close>

text \<open>
  C2: when the groups resolve to the categories \<open>cats\<close>, and \<open>comparison\<close> is not the
  string \<open>rest\<close> and all its elements are among \<open>cats\<close>, then \<open>latent_enrich\<close> fails
  with the value error of line 255.  This holds for all collaborators \<open>C\<close> (sampler
  and encoder), which are therefore not consulted, and the result carries no written
  dataset.
\<close>

theorem comparison_among_groups_is_refused:
  assumes "resolve_groups (case adata_arg of None \<Rightarrow> self_adata self | Some d \<Rightarrow> d) groups
             = Inr (adata', cats_col, cats)"
      and "comparison \<noteq> CompStr ''rest''"
      and "comparison_set comparison \<subseteq> set cats"
  shows "latent_enrich C self groups comparison n_sample use_directions directions_key
           select_terms adata_arg exact key_added r
         = Inl (ValueError ''comparison should be 'rest' or among the passed groups'')"
  using assms by (simp add: latent_enrich_def)

text \<open>The list \<open>[''B'']\<close> is among the categories \<open>A\<close>, \<open>B\<close> of the example: refused.\<close>

theorem comparison_among_groups_is_refused_witness:
  "latent_enrich example_collaborators example_self (GroupsKey ''cell_type'')
     (CompList [''B'']) 10 False ''directions'' None None True ''bf_scores'' ()
   = Inl (ValueError ''comparison should be 'rest' or among the passed groups'')"
  using comparison_among_groups_is_refused [where adata_arg = None and self = example_self
      and groups = "GroupsKey ''cell_type''" and adata' = example_adata
      and cats_col = "[Some ''A'', Some ''B'']" and cats = "[''A'', ''B'']"
      and comparison = "CompList [''B'']"]
  by (simp add: example_self_fields example_adata_def resolve_groups_def comparison_set_def)

section \<open>Terms and their genes\<close>

text \<open>
  The boolean array of a mask whose rows all have one length: its rows are the rows of
  the nested list.
\<close>

lemma array_of_rows_rect:
  assumes "list_all (\<lambda>r. length r = w) bm"
  shows "\<exists>I. array_of_rows bm = Inr I \<and> shape0 I = length bm
           \<and> (\<forall>i < length bm. row I i = Inr (bm ! i))"
proof (cases bm)
  case Nil
  then show ?thesis by (simp add: array_of_rows_def)
next
  case (Cons r rs)
  let ?I = "\<lparr>shape0 = length bm, shape1 = length r, entry = (\<lambda>i j. bm ! i ! j)\<rparr>"
  from assms have len: "length q = w" if "q \<in> set bm" for q
    using that by (simp add: list_all_iff)
  have r: "length r = w"
    using len [of r] Cons by simp
  have "list_all (\<lambda>q. length q = length r) rs"
    using len Cons r by (simp add: list_all_iff)
  then have I: "array_of_rows bm = Inr ?I"
    using Cons by (simp add: array_of_rows_def)
  have "row ?I i = Inr (bm ! i)" if "i < length bm" for i
  proof -
    have "length (bm ! i) = length r"
      using that len [of "bm ! i"] r by simp
    moreover have "map (\<lambda>j. bm ! i ! j) [0..<length (bm ! i)] = bm ! i"
      by (rule map_nth)
    ultimately have "map (\<lambda>j. bm ! i ! j) [0..<length r] = bm ! i"
      by simp
    then show ?thesis using that by (simp add: row_def)
  qed
  with I show ?thesis by simp
qed

text \<open>
  The comprehension over the terms, started at row \<open>i\<close>: it succeeds when the rows
  suffice, and stops with an \<open>IndexError\<close> when they run out.
\<close>

lemma terms_genes_loop_ok:
  assumes rows: "\<forall>i < length bm. row I i = Inr (bm ! i)"
      and len: "list_all (\<lambda>r. length r = length names) bm"
  shows "i + length ts \<le> length bm \<Longrightarrow>
         terms_genes_loop I names i ts d =
           Inr (d(ts [\<mapsto>] map (\<lambda>r. map fst (filter snd (zip names r))) (drop i bm)))"
proof (induction ts arbitrary: i d)
  case Nil
  then show ?case by simp
next
  case (Cons t ts)
  let ?sel = "\<lambda>r. map fst (filter snd (zip names r))"
  from Cons.prems have i: "i < length bm" by simp
  then have "length (bm ! i) = length names"
    using len by (simp add: list_all_length)
  then have sel: "index_by_mask names (bm ! i) = Inr (?sel (bm ! i))"
    by (simp add: index_by_mask_def)
  have row: "row I i = Inr (bm ! i)"
    using rows i by simp
  have drop: "drop i bm = bm ! i # drop (Suc i) bm"
    using i by (simp add: Cons_nth_drop_Suc)
  from Cons.prems have next_ok: "Suc i + length ts \<le> length bm" by simp
  have "terms_genes_loop I names i (t # ts) d =
          terms_genes_loop I names (Suc i) ts (d(t \<mapsto> ?sel (bm ! i)))"
    by (simp add: row sel)
  also have "\<dots> = Inr ((d(t \<mapsto> ?sel (bm ! i)))(ts [\<mapsto>] map ?sel (drop (Suc i) bm)))"
    by (rule Cons.IH [OF next_ok])
  also have "(d(t \<mapsto> ?sel (bm ! i)))(ts [\<mapsto>] map ?sel (drop (Suc i) bm))
               = d(t # ts [\<mapsto>] map ?sel (drop i bm))"
    by (subst drop) simp
  finally show ?case .
qed

lemma terms_genes_loop_out_of_range:
  assumes rows: "\<forall>i < length bm. row I i = Inr (bm ! i)"
      and shape: "shape0 I = length bm"
      and len: "list_all (\<lambda>r. length r = length names) bm"
  shows "i \<le> length bm \<Longrightarrow> length bm < i + length ts \<Longrightarrow>
         terms_genes_loop I names i ts d = Inl (IndexError ''index is out of bounds for axis 0'')"
proof (induction ts arbitrary: i d)
  case Nil
  then show ?case by simp
next
  case (Cons t ts)
  let ?sel = "\<lambda>r. map fst (filter snd (zip names r))"
  show ?case
  proof (cases "i < length bm")
    case True
    then have "length (bm ! i) = length names"
      using len by (simp add: list_all_length)
    then have sel: "index_by_mask names (bm ! i) = Inr (?sel (bm ! i))"
      by (simp add: index_by_mask_def)
    have row: "row I i = Inr (bm ! i)"
      using rows True by simp
    from True Cons.prems have nxt: "Suc i \<le> length bm" "length bm < Suc i + length ts"
      by simp_all
    have "terms_genes_loop I names i (t # ts) d =
            terms_genes_loop I names (Suc i) ts (d(t \<mapsto> ?sel (bm ! i)))"
      by (simp add: row sel)
    also have "\<dots> = Inl (IndexError ''index is out of bounds for axis 0'')"
      by (rule Cons.IH [OF nxt])
    finally show ?thesis .
  next
    case False
    then have "row I i = Inl (IndexError ''index is out of bounds for axis 0'')"
      using shape by (simp add: row_def)
    then show ?thesis by simp
  qed
qed

lemma selected_genes_nonzero:
  "map fst (filter snd (zip names (map (\<lambda>v. v \<noteq> 0) r))) = genes_nonzero names r"
proof (induction r arbitrary: names)
  case Nil
  then show ?case by (simp add: genes_nonzero_def)
next
  case (Cons v r)
  then show ?case by (cases names) (simp_all add: genes_nonzero_def)
qed

lemma genes_nonzero_binary:
  "list_all (\<lambda>v. v = 0 \<or> v = 1) r \<Longrightarrow> genes_nonzero names r = genes_of_row names r"
proof (induction r arbitrary: names)
  case Nil
  then show ?case by (simp add: genes_nonzero_def genes_of_row_def)
next
  case (Cons v r)
  then show ?case by (cases names) (auto simp add: genes_nonzero_def genes_of_row_def)
qed

lemma terms_genes_resolved:
  assumes rect: "list_all (\<lambda>r. length r = length (var_names (self_adata self))) (self_mask self)"
      and res: "resolve_terms self terms = Inr ts"
  shows "length ts \<le> length (self_mask self) \<Longrightarrow>
           terms_genes self terms =
             Inr (Map.empty(ts [\<mapsto>] map (genes_nonzero (var_names (self_adata self))) (self_mask self)))"
    and "length (self_mask self) < length ts \<Longrightarrow>
           terms_genes self terms = Inl (IndexError ''index is out of bounds for axis 0'')"
proof -
  let ?bm = "map (map (\<lambda>v. v \<noteq> 0)) (self_mask self)"
  let ?names = "var_names (self_adata self)"
  have len: "list_all (\<lambda>r. length r = length ?names) ?bm"
    using rect by (simp add: list_all_iff)
  from array_of_rows_rect [OF len] obtain I where
    I: "array_of_rows ?bm = Inr I" "shape0 I = length ?bm"
       "\<forall>i < length ?bm. row I i = Inr (?bm ! i)"
    by blast
  have tg: "terms_genes self terms = terms_genes_loop I ?names 0 ts Map.empty"
    using res I(1) by (simp add: terms_genes_def)
  have sel: "map (\<lambda>r. map fst (filter snd (zip ?names r))) ?bm
               = map (genes_nonzero ?names) (self_mask self)"
    by (rule nth_equalityI) (simp_all add: selected_genes_nonzero)
  show "terms_genes self terms =
          Inr (Map.empty(ts [\<mapsto>] map (genes_nonzero ?names) (self_mask self)))"
    if short: "length ts \<le> length (self_mask self)"
  proof -
    from short have "0 + length ts \<le> length ?bm" by simp
    from terms_genes_loop_ok [OF I(3) len this, of Map.empty]
    have "terms_genes_loop I ?names 0 ts Map.empty =
            Inr (Map.empty(ts [\<mapsto>] map (\<lambda>r. map fst (filter snd (zip ?names r))) ?bm))"
      by (simp only: drop_0)
    then show ?thesis unfolding tg sel .
  qed
  show "terms_genes self terms = Inl (IndexError ''index is out of bounds for axis 0'')"
    if long: "length (self_mask self) < length ts"
  proof -
    from long have "0 \<le> length ?bm" "length ?bm < 0 + length ts" by simp_all
    from terms_genes_loop_out_of_range [OF I(3) I(2) len this, of Map.empty]
    show ?thesis unfolding tg .
  qed
qed

lemma map_upds_last_occurrence:
  "length vs = length ks \<Longrightarrow> i < length ks \<Longrightarrow>
   (\<forall>k < length ks. i < k \<longrightarrow> ks ! k \<noteq> ks ! i) \<Longrightarrow>
     (m(ks [\<mapsto>] vs)) (ks ! i) = Some (vs ! i)"
proof (induction ks arbitrary: vs i m)
  case Nil
  then show ?case by simp
next
  case (Cons k ks)
  then obtain v vs' where vs: "vs = v # vs'" by (cases vs) auto
  show ?case
  proof (cases i)
    case 0
    have "k \<notin> set ks"
    proof
      assume "k \<in> set ks"
      then obtain n where "n < length ks" "ks ! n = k"
        by (auto simp: in_set_conv_nth)
      with Cons.prems(3) 0 show False
        by (auto dest: spec [of _ "Suc n"])
    qed
    then show ?thesis using 0 vs by simp
  next
    case (Suc j)
    have later: "\<forall>n < length ks. j < n \<longrightarrow> ks ! n \<noteq> ks ! j"
    proof (intro allI impI)
      fix n assume "n < length ks" "j < n"
      with Cons.prems(3) Suc show "ks ! n \<noteq> ks ! j"
        by (auto dest: spec [of _ "Suc n"])
    qed
    from Cons.prems Suc vs have "length vs' = length ks" "j < length ks" by simp_all
    note step = Cons.IH [OF this later]
    have "(m(k # ks [\<mapsto>] v # vs')) ((k # ks) ! Suc j) = ((m(k \<mapsto> v))(ks [\<mapsto>] vs')) (ks ! j)"
      by simp
    also have "\<dots> = Some (vs' ! j)"
      by (rule step)
    also have "vs' ! j = (v # vs') ! Suc j"
      by simp
    finally show ?thesis
      unfolding Suc vs .
  qed
qed

text \<open>
  C8: let the mask be a 0/1 matrix with one column per gene of the dataset.  For a
  list \<open>ts\<close> of term names, \<open>terms_genes\<close> raises a value error if and only if the length
  of \<open>ts\<close> differs from the number of mask rows.  For a list of the right length it returns
  the dictionary that maps the names, in order, to the genes whose entry in the
  corresponding mask row is 1: its keys are the names, and the \<open>i\<close>-th name is mapped
  to exactly the genes with a 1 in row \<open>i\<close> (for a name that occurs more than once,
  \<open>i\<close> is its last occurrence, as in a Python dictionary).
\<close>

theorem terms_genes_of_a_list:
  assumes rect: "list_all (\<lambda>r. length r = length (var_names (self_adata self))) (self_mask self)"
      and bin: "list_all (list_all (\<lambda>v. v = 0 \<or> v = 1)) (self_mask self)"
  shows "((\<exists>msg. terms_genes self (TermsList ts) = Inl (ValueError msg))
            \<longleftrightarrow> length ts \<noteq> length (self_mask self))
       \<and> (length ts = length (self_mask self) \<longrightarrow>
            (\<exists>d. terms_genes self (TermsList ts) = Inr d
               \<and> d = Map.empty(ts [\<mapsto>] map (genes_of_row (var_names (self_adata self))) (self_mask self))
               \<and> dom d = set ts
               \<and> (\<forall>i < length ts.
                     (\<forall>k < length ts. i < k \<longrightarrow> ts ! k \<noteq> ts ! i) \<longrightarrow>
                     d (ts ! i) = Some (genes_of_row (var_names (self_adata self)) (self_mask self ! i)))))"
proof -
  let ?names = "var_names (self_adata self)"
  have same: "map (genes_nonzero ?names) (self_mask self) = map (genes_of_row ?names) (self_mask self)"
    using bin by (simp add: list_all_iff genes_nonzero_binary)
  show ?thesis
  proof (cases "length ts = length (self_mask self)")
    case True
    then have res: "resolve_terms self (TermsList ts) = Inr ts"
      by (simp add: resolve_terms_def)
    from terms_genes_resolved(1) [OF rect res] True same
    have tg: "terms_genes self (TermsList ts) =
                Inr (Map.empty(ts [\<mapsto>] map (genes_of_row ?names) (self_mask self)))"
      by simp
    have "(Map.empty(ts [\<mapsto>] map (genes_of_row ?names) (self_mask self))) (ts ! i)
            = Some (genes_of_row ?names (self_mask self ! i))"
      if "i < length ts" "\<forall>k < length ts. i < k \<longrightarrow> ts ! k \<noteq> ts ! i" for i
      using map_upds_last_occurrence [OF _ that, of "map (genes_of_row ?names) (self_mask self)"]
        True that(1) by simp
    then show ?thesis using tg True by simp
  next
    case False
    then show ?thesis by (simp add: terms_genes_def resolve_terms_def)
  qed
qed

text \<open>
  On the example (mask \<open>[[1, 0]]\<close>, genes \<open>g1\<close>, \<open>g2\<close>): one name is mapped to \<open>g1\<close>;
  the empty list has the wrong length and gives no dictionary.
\<close>

theorem terms_genes_of_a_list_witness:
  "terms_genes example_self (TermsList [''T1'']) = Inr [''T1'' \<mapsto> [''g1'']]
   \<and> terms_genes example_self (TermsList []) \<noteq> Inr Map.empty"
  using terms_genes_of_a_list [of example_self "[''T1'']"]
        terms_genes_of_a_list [of example_self "[]"]
  by (auto simp add: example_self_fields example_adata_def genes_of_row_def)

text \<open>
  C10: when \<open>terms\<close> is a key of the auxiliary store holding the names \<open>ts\<close>, there is
  no length check (the mask has one column per gene).  With more names than mask rows
  the call ends in an \<open>IndexError\<close> from the row access, not in a value error; with at
  most as many names as rows it returns a dictionary whose keys are just the stored
  names, built from the first rows only.
\<close>

theorem terms_from_store_are_not_length_checked:
  assumes rect: "list_all (\<lambda>r. length r = length (var_names (self_adata self))) (self_mask self)"
      and key: "uns (self_adata self) k = Some (UStrList ts)"
  shows "(length (self_mask self) < length ts \<longrightarrow>
            terms_genes self (TermsKey k) = Inl (IndexError ''index is out of bounds for axis 0''))
       \<and> (length ts \<le> length (self_mask self) \<longrightarrow>
            (\<exists>d. terms_genes self (TermsKey k) = Inr d
               \<and> d = Map.empty(ts [\<mapsto>] map (genes_nonzero (var_names (self_adata self))) (self_mask self))
               \<and> dom d = set ts))"
proof -
  have res: "resolve_terms self (TermsKey k) = Inr ts"
    using key by (simp add: resolve_terms_def)
  show ?thesis
    using terms_genes_resolved [OF rect res] by (auto simp: min_def)
qed

text \<open>Two stored names for the one mask row of the example: an \<open>IndexError\<close>.\<close>

theorem terms_from_store_are_not_length_checked_witness:
  "terms_genes example_self_terms (TermsKey ''terms'')
     = Inl (IndexError ''index is out of bounds for axis 0'')"
  using terms_from_store_are_not_length_checked [of example_self_terms "''terms''" "[''T1'', ''T2'']"]
  by (simp add: example_self_terms_def example_self_fields example_adata_def)

section \<open>Differential activity: the scores of one category\<close>

lemma bayes_scores_length:
  "length p0 = n \<Longrightarrow> length zm = n \<Longrightarrow>
     length (p_h0 (bayes_scores p0 zm)) = n \<and> length (p_h1 (bayes_scores p0 zm)) = n
     \<and> length (bf (bayes_scores p0 zm)) = n"
  by (simp add: bayes_scores_def Let_def)

lemma bayes_scores_masked:
  assumes "j < length p0" "j < length zm" "zm ! j"
  shows "p_h0 (bayes_scores p0 zm) ! j = Fin 0" "p_h1 (bayes_scores p0 zm) ! j = Fin 0"
        "bf (bayes_scores p0 zm) ! j = Fin 0"
  using assms by (simp_all add: bayes_scores_def Let_def mask_assign_nth)

lemma bayes_scores_unmasked:
  assumes "j < length p0" "j < length zm" "\<not> zm ! j"
  shows "p_h0 (bayes_scores p0 zm) ! j = p0 ! j"
        "p_h1 (bayes_scores p0 zm) ! j = fsub (Fin 1) (p0 ! j)"
        "bf (bayes_scores p0 zm) ! j =
           fsub (flog (fadd (p0 ! j) (Fin (1 / 10 ^ 12))))
                (flog (fadd (fsub (Fin 1) (p0 ! j)) (Fin (1 / 10 ^ 12))))"
  using assms by (simp_all add: bayes_scores_def Let_def mask_assign_nth)

lemma zip_arrays_Inr:
  assumes "zip_arrays f a b = Inr c"
  shows "shape0 b = shape0 a" "shape1 b = shape1 a" "shape0 c = shape0 a" "shape1 c = shape1 a"
        "entry c = (\<lambda>i j. f (entry a i j) (entry b i j))"
  using assms by (auto simp: zip_arrays_def split: if_splits)

lemma length_zero_columns [simp]: "length (zero_columns z) = shape1 z"
  by (simp add: zero_columns_def abs_sum0_def)

lemma zero_columns_nth:
  "j < shape1 z \<Longrightarrow> zero_columns z ! j = feq (fsum (map fabs (column z j))) (Fin 0)"
  by (simp add: zero_columns_def abs_sum0_def)

lemma length_mean0 [simp]: "length (mean0 a) = shape1 a"
  by (simp add: mean0_def)

lemma sampled_scores_Inr:
  assumes "sampled_scores d s a0 a1 = Inr sc"
      and "prepared d s a0 = Inr b0" and "prepared d s a1 = Inr b1"
  shows "\<exists>tr. zip_arrays fgt b0 b1 = Inr tr \<and>
           sc = bayes_scores (mean0 (map_array float_of_bool tr))
                  (map (\<lambda>(x, y). x \<or> y) (zip (zero_columns b0) (zero_columns b1)))"
  using assms
  by (auto simp: sampled_scores_def prepared_def ebind_eq_Inr Let_def)

lemma exact_scores_Inr:
  assumes "exact_scores d s (m0, v0) (m1, v1) = Inr sc"
      and "prepared d s m0 = Inr b0" and "prepared d s m1 = Inr b1"
  shows "\<exists>w0 w1 tr. apply_select s v0 = Inr w0 \<and> apply_select s v1 = Inr w1 \<and>
           exact_to_reduce b0 w0 b1 w1 = Inr tr \<and>
           sc = bayes_scores (mean0 tr)
                  (map (\<lambda>(x, y). x \<or> y) (zip (zero_columns b0) (zero_columns b1)))"
  using assms
  by (auto simp: exact_scores_def prepared_def ebind_eq_Inr Let_def)

lemma exact_to_reduce_Inr:
  assumes "exact_to_reduce b0 w0 b1 w1 = Inr tr"
  shows "shape0 b1 = shape0 b0" "shape1 b1 = shape1 b0"
        "shape0 w0 = shape0 b0" "shape1 w0 = shape1 b0"
        "shape0 w1 = shape0 b0" "shape1 w1 = shape1 b0"
        "shape0 tr = shape0 b0" "shape1 tr = shape1 b0"
        "\<exists>z. std_diff b0 w0 b1 w1 = Inr z \<and> shape0 z = shape0 b0 \<and> shape1 z = shape1 b0
           \<and> entry z = (\<lambda>i j. fdiv (fsub (entry b1 i j) (entry b0 i j))
                                  (fsqrt (fmul (Fin 2) (fadd (entry w0 i j) (entry w1 i j)))))
           \<and> entry tr = (\<lambda>i j. fmul (Fin 0.5) (ferfc (entry z i j)))"
proof -
  from assms obtain z where z: "std_diff b0 w0 b1 w1 = Inr z"
    and tr: "tr = map_array (\<lambda>v. fmul (Fin 0.5) (ferfc v)) z"
    by (auto simp: exact_to_reduce_def ebind_eq_Inr)
  from z obtain num vsum where num: "zip_arrays fsub b1 b0 = Inr num"
    and vsum: "zip_arrays fadd w0 w1 = Inr vsum"
    and quot: "zip_arrays fdiv num (map_array (\<lambda>v. fsqrt (fmul (Fin 2) v)) vsum) = Inr z"
    by (auto simp: std_diff_def ebind_eq_Inr)
  note n = zip_arrays_Inr [OF num] and v = zip_arrays_Inr [OF vsum]
    and q = zip_arrays_Inr [OF quot]
  show "shape0 b1 = shape0 b0" "shape1 b1 = shape1 b0"
    using n by simp_all
  show "shape0 w0 = shape0 b0" "shape1 w0 = shape1 b0"
    using n v q by (simp_all add: map_array_def)
  show "shape0 w1 = shape0 b0" "shape1 w1 = shape1 b0"
    using n v q by (simp_all add: map_array_def)
  show "shape0 tr = shape0 b0" "shape1 tr = shape1 b0"
    using n q tr by (simp_all add: map_array_def)
  have "shape0 z = shape0 b0" "shape1 z = shape1 b0"
    using n q by simp_all
  moreover have "entry z = (\<lambda>i j. fdiv (fsub (entry b1 i j) (entry b0 i j))
                                  (fsqrt (fmul (Fin 2) (fadd (entry w0 i j) (entry w1 i j)))))"
    using n v q by (simp add: map_array_def)
  moreover have "entry tr = (\<lambda>i j. fmul (Fin 0.5) (ferfc (entry z i j)))"
    using tr by (simp add: map_array_def)
  ultimately show "\<exists>z. std_diff b0 w0 b1 w1 = Inr z \<and> shape0 z = shape0 b0 \<and> shape1 z = shape1 b0
           \<and> entry z = (\<lambda>i j. fdiv (fsub (entry b1 i j) (entry b0 i j))
                                  (fsqrt (fmul (Fin 2) (fadd (entry w0 i j) (entry w1 i j)))))
           \<and> entry tr = (\<lambda>i j. fmul (Fin 0.5) (ferfc (entry z i j)))"
    using z by blast
qed

text \<open>The zero-sum rule on the scores of two samples.\<close>

lemma kernel_zero_sum:
  assumes res: "sampled_scores d s a0 a1 = Inr sc \<or> exact_scores d s (a0, v0) (a1, v1) = Inr sc"
      and b0: "prepared d s a0 = Inr b0" and b1: "prepared d s a1 = Inr b1"
      and j: "j < shape1 b0"
      and zero: "fsum (map fabs (column b0 j)) = Fin 0 \<or> fsum (map fabs (column b1 j)) = Fin 0"
  shows "j < length (p_h0 sc) \<and> j < length (p_h1 sc) \<and> j < length (bf sc)
       \<and> p_h0 sc ! j = Fin 0 \<and> p_h1 sc ! j = Fin 0 \<and> bf sc ! j = Fin 0"
proof -
  let ?zm = "map (\<lambda>(x, y). x \<or> y) (zip (zero_columns b0) (zero_columns b1))"
  from res obtain p0 where sc: "sc = bayes_scores p0 ?zm"
    and p0: "length p0 = shape1 b0" and same: "shape1 b1 = shape1 b0"
  proof
    assume "sampled_scores d s a0 a1 = Inr sc"
    from sampled_scores_Inr [OF this b0 b1] obtain tr where
      tr: "zip_arrays fgt b0 b1 = Inr tr"
      and "sc = bayes_scores (mean0 (map_array float_of_bool tr)) ?zm"
      by blast
    with zip_arrays_Inr [OF tr] that show ?thesis
      by (simp add: map_array_def)
  next
    assume "exact_scores d s (a0, v0) (a1, v1) = Inr sc"
    from exact_scores_Inr [OF this b0 b1] obtain w0 w1 tr where
      tr: "exact_to_reduce b0 w0 b1 w1 = Inr tr"
      and "sc = bayes_scores (mean0 tr) ?zm"
      by blast
    with exact_to_reduce_Inr(2,8) [OF tr] that show ?thesis
      by simp
  qed
  have len: "length ?zm = shape1 b0"
    using same by simp
  have flagged: "?zm ! j"
    using j same zero by (auto simp: zero_columns_nth feq_def)
  from bayes_scores_length [OF p0 len] bayes_scores_masked [of j p0 ?zm] j p0 len flagged
  show ?thesis
    unfolding sc by simp
qed

text \<open>The error function complement at 0, and the mean of a constant column.\<close>

lemma erfc_zero: "erfc 0 = 1"
  by (simp add: erfc_def)

lemma foldl_fadd_const:
  "\<forall>x \<in> set xs. x = Fin c \<Longrightarrow> foldl fadd (Fin a) xs = Fin (a + real (length xs) * c)"
  by (induction xs arbitrary: a) (simp_all add: algebra_simps)

lemma fmean_const:
  assumes "xs \<noteq> []" and "\<forall>x \<in> set xs. x = Fin c"
  shows "fmean xs = Fin c"
  using assms foldl_fadd_const [OF assms(2), of 0]
  by (simp add: fmean_def fsum_def)

lemma mean0_nth: "j < shape1 a \<Longrightarrow> mean0 a ! j = fmean (column a j)"
  by (simp add: mean0_def)

text \<open>Equal finite means and positive variances, on the scores of two samples.\<close>

lemma kernel_equal_means:
  assumes res: "exact_scores d s (m0, v0) (m1, v1) = Inr sc"
      and b0: "prepared d s m0 = Inr b0" and b1: "prepared d s m1 = Inr b1"
      and w0: "apply_select s v0 = Inr w0" and w1: "apply_select s v1 = Inr w1"
      and j: "j < shape1 b0"
      and means: "\<forall>i < shape0 b0. \<exists>x. entry b0 i j = Fin x \<and> entry b1 i j = Fin x"
      and vars: "\<forall>i < shape0 b0. \<exists>a b. entry w0 i j = Fin a \<and> entry w1 i j = Fin b
                                       \<and> 0 < a \<and> 0 < b"
      and unflagged: "\<not> zero_columns b0 ! j" "\<not> zero_columns b1 ! j"
  shows "\<exists>z tr. std_diff b0 w0 b1 w1 = Inr z \<and> exact_to_reduce b0 w0 b1 w1 = Inr tr
           \<and> (\<forall>i < shape0 b0. entry z i j = Fin 0 \<and> entry tr i j = Fin (1 / 2))
           \<and> p_h0 sc ! j = Fin (1 / 2) \<and> p_h1 sc ! j = Fin (1 / 2) \<and> bf sc ! j = Fin 0"
proof -
  let ?zm = "map (\<lambda>(x, y). x \<or> y) (zip (zero_columns b0) (zero_columns b1))"
  from exact_scores_Inr [OF res b0 b1] w0 w1 obtain tr where
    tr: "exact_to_reduce b0 w0 b1 w1 = Inr tr" and sc: "sc = bayes_scores (mean0 tr) ?zm"
    by auto
  note shapes = exact_to_reduce_Inr(1-8) [OF tr]
  from exact_to_reduce_Inr(9) [OF tr] obtain z where
    z: "std_diff b0 w0 b1 w1 = Inr z"
    and ez: "entry z = (\<lambda>i j. fdiv (fsub (entry b1 i j) (entry b0 i j))
                                 (fsqrt (fmul (Fin 2) (fadd (entry w0 i j) (entry w1 i j)))))"
    and et: "entry tr = (\<lambda>i j. fmul (Fin 0.5) (ferfc (entry z i j)))"
    by blast
  have zi: "entry z i j = Fin 0" if "i < shape0 b0" for i
  proof -
    from means that obtain x where x: "entry b0 i j = Fin x" "entry b1 i j = Fin x"
      by blast
    from vars that obtain a b where
      ab: "entry w0 i j = Fin a" "entry w1 i j = Fin b" "0 < a" "0 < b"
      by blast
    from ab have "sqrt (2 * (a + b)) \<noteq> 0" by simp
    then show ?thesis
      using x ab by (simp add: ez fsub_def)
  qed
  have ti: "entry tr i j = Fin (1 / 2)" if "i < shape0 b0" for i
    using zi [OF that] by (simp add: et erfc_zero)
  have rows: "shape0 b0 \<noteq> 0"
  proof
    assume "shape0 b0 = 0"
    then have "zero_columns b0 ! j"
      using j by (simp add: zero_columns_nth column_def fsum_def feq_def)
    with unflagged show False by simp
  qed
  have "fmean (column tr j) = Fin (1 / 2)"
  proof (rule fmean_const)
    show "column tr j \<noteq> []"
      using rows shapes by (simp add: column_def)
    show "\<forall>x \<in> set (column tr j). x = Fin (1 / 2)"
      using ti shapes by (auto simp: column_def)
  qed
  then have p0: "mean0 tr ! j = Fin (1 / 2)"
    using j shapes by (simp add: mean0_nth)
  have jl: "j < length (mean0 tr)" "j < length ?zm" "\<not> ?zm ! j"
    using j shapes unflagged by simp_all
  from bayes_scores_unmasked [OF jl] p0
  have "p_h0 sc ! j = Fin (1 / 2)" "p_h1 sc ! j = Fin (1 / 2)" "bf sc ! j = Fin 0"
    unfolding sc by (simp_all add: fsub_def)
  with z tr zi ti show ?thesis by blast
qed

section \<open>Differential activity: what is stored\<close>

text \<open>
  The loop over the categories: a category that is visited, and not visited again, keeps
  the scores of its visit; the visit starts at the state of the random number generators
  that the categories before it leave.
\<close>

lemma enrich_loop_append:
  "enrich_loop body cmp (pre @ post) s r =
     ebind (enrich_loop body cmp pre s r) (\<lambda>(s', r'). enrich_loop body cmp post s' r')"
proof (induction pre arbitrary: s r)
  case Nil
  then show ?case by simp
next
  case (Cons c pre)
  show ?case
  proof (cases "in_comparison c cmp")
    case True
    have "enrich_loop body cmp ((c # pre) @ post) s r = enrich_loop body cmp (pre @ post) s r"
      using True by simp
    also have "\<dots> = ebind (enrich_loop body cmp pre s r)
                       (\<lambda>(s', r'). enrich_loop body cmp post s' r')"
      by (rule Cons.IH)
    also have "enrich_loop body cmp pre s r = enrich_loop body cmp (c # pre) s r"
      using True by simp
    finally show ?thesis .
  next
    case False
    show ?thesis
    proof (cases "body c r")
      case (Inl e)
      then show ?thesis using False by simp
    next
      case (Inr p)
      obtain a b where p: "p = (a, b)" by (cases p)
      have "enrich_loop body cmp ((c # pre) @ post) s r
              = enrich_loop body cmp (pre @ post) (s(c \<mapsto> a)) b"
        using False Inr p by simp
      also have "\<dots> = ebind (enrich_loop body cmp pre (s(c \<mapsto> a)) b)
                         (\<lambda>(s', r'). enrich_loop body cmp post s' r')"
        by (rule Cons.IH)
      also have "enrich_loop body cmp pre (s(c \<mapsto> a)) b = enrich_loop body cmp (c # pre) s r"
        using False Inr p by simp
      finally show ?thesis .
    qed
  qed
qed

lemma enrich_loop_keeps:
  assumes "cat \<notin> set post" and "enrich_loop body cmp post s r = Inr (s', r')"
  shows "s' cat = s cat"
  using assms
proof (induction post arbitrary: s r)
  case Nil
  then show ?case by simp
next
  case (Cons c post)
  from Cons.prems(1) have c: "c \<noteq> cat" and post: "cat \<notin> set post" by auto
  show ?case
  proof (cases "in_comparison c cmp")
    case True
    with Cons.prems(2) have "enrich_loop body cmp post s r = Inr (s', r')" by simp
    from Cons.IH [OF post this] show ?thesis .
  next
    case False
    obtain sc0 r0 where
      rest: "enrich_loop body cmp post (s(c \<mapsto> sc0)) r0 = Inr (s', r')"
    proof (cases "body c r")
      case (Inl e)
      with Cons.prems(2) False show ?thesis by simp
    next
      case (Inr p)
      obtain a b where "p = (a, b)" by (cases p)
      with Inr Cons.prems(2) False that [of a b] show ?thesis by simp
    qed
    have "s' cat = (s(c \<mapsto> sc0)) cat"
      by (rule Cons.IH [OF post rest])
    also have "\<dots> = s cat"
      using c by simp
    finally show ?thesis .
  qed
qed

lemma enrich_loop_visit:
  assumes run: "enrich_loop body cmp (pre @ cat # post) s r = Inr (s', r')"
      and last: "cat \<notin> set post"
      and visited: "\<not> in_comparison cat cmp"
  shows "\<exists>s0 r0 sc r1. enrich_loop body cmp pre s r = Inr (s0, r0)
           \<and> body cat r0 = Inr (sc, r1) \<and> s' cat = Some sc"
proof -
  from run have "ebind (enrich_loop body cmp pre s r)
                   (\<lambda>(s0, r0). enrich_loop body cmp (cat # post) s0 r0) = Inr (s', r')"
    by (simp only: enrich_loop_append)
  then obtain s0 r0 where
    pre: "enrich_loop body cmp pre s r = Inr (s0, r0)"
    and rest: "enrich_loop body cmp (cat # post) s0 r0 = Inr (s', r')"
    by (auto simp: ebind_eq_Inr)
  obtain sc r1 where
    body: "body cat r0 = Inr (sc, r1)"
    and post: "enrich_loop body cmp post (s0(cat \<mapsto> sc)) r1 = Inr (s', r')"
  proof (cases "body cat r0")
    case (Inl e)
    with rest visited show ?thesis by simp
  next
    case (Inr p)
    obtain a b where "p = (a, b)" by (cases p)
    with Inr rest visited that [of a b] show ?thesis by simp
  qed
  have "s' cat = (s0(cat \<mapsto> sc)) cat"
    by (rule enrich_loop_keeps [OF last post])
  then have "s' cat = Some sc" by simp
  with pre body show ?thesis by blast
qed

lemma latent_enrich_Inr:
  assumes run: "latent_enrich C self groups comparison n_sample use_directions directions_key
                  select_terms adata_arg exact key_added r = Inr (d, r')"
      and grp: "resolve_groups (case adata_arg of None \<Rightarrow> self_adata self | Some a \<Rightarrow> a) groups
                  = Inr (adata, cats_col, cats)"
  shows "\<exists>scores.
           enrich_loop
             (enrich_category C self adata cats_col (normalise_comparison comparison) n_sample
                use_directions directions_key select_terms exact)
             (normalise_comparison comparison) cats Map.empty r = Inr (scores, r')
         \<and> (\<forall>cat. stored_scores d key_added cat = scores cat)"
  using run grp
  by (auto simp: latent_enrich_def Let_def ebind_eq_Inr stored_scores_def split: if_splits)

lemma prepared_plain [simp]: "prepared None None z = Inr z"
  by (simp add: prepared_def apply_directions_def apply_select_def)

lemma sampled_scores_prepared:
  "sampled_scores d s a0 a1 = Inr sc \<Longrightarrow>
     \<exists>b0 b1. prepared d s a0 = Inr b0 \<and> prepared d s a1 = Inr b1"
  by (auto simp: sampled_scores_def prepared_def ebind_eq_Inr)

lemma exact_scores_prepared:
  "exact_scores d s (m0, v0) (m1, v1) = Inr sc \<Longrightarrow>
     \<exists>b0 b1 w0 w1. prepared d s m0 = Inr b0 \<and> prepared d s m1 = Inr b1
        \<and> apply_select s v0 = Inr w0 \<and> apply_select s v1 = Inr w1"
  by (auto simp: exact_scores_def prepared_def ebind_eq_Inr)

lemma enrich_category_sampled:
  assumes "enrich_category C self adata cats_col cmp n_sample use_directions directions_key
             select_terms False cat r0 = Inr (sc, r1)"
  shows "\<exists>dirs z0 z1 b0 b1.
           tested_sampled C self adata cats_col cmp n_sample use_directions directions_key
             select_terms cat r0 = Inr (b0, b1)
         \<and> prepared dirs select_terms z0 = Inr b0 \<and> prepared dirs select_terms z1 = Inr b1
         \<and> sampled_scores dirs select_terms z0 z1 = Inr sc"
proof -
  from assms obtain adata_cat adata_others dirs r2 z0 z1 r3 where
    groups: "category_groups C adata cats_col cmp n_sample use_directions directions_key cat r0
               = Inr (adata_cat, adata_others, dirs, r2)"
    and enc: "encode_groups (get_latent C) self adata_cat adata_others r2 = Inr (z0, z1, r3)"
    and sc: "sampled_scores dirs select_terms z0 z1 = Inr sc"
    by (auto simp: enrich_category_def ebind_eq_Inr)
  from sampled_scores_prepared [OF sc] obtain b0 b1 where
    b: "prepared dirs select_terms z0 = Inr b0" "prepared dirs select_terms z1 = Inr b1"
    by blast
  have "tested_sampled C self adata cats_col cmp n_sample use_directions directions_key
          select_terms cat r0 = Inr (b0, b1)"
    by (simp add: tested_sampled_def groups enc b)
  with b sc show ?thesis by blast
qed

lemma enrich_category_exact:
  assumes "enrich_category C self adata cats_col cmp n_sample use_directions directions_key
             select_terms True cat r0 = Inr (sc, r1)"
  shows "\<exists>dirs m0 v0 m1 v1 b0 w0 b1 w1.
           tested_exact C self adata cats_col cmp n_sample use_directions directions_key
             select_terms cat r0 = Inr (b0, w0, b1, w1)
         \<and> prepared dirs select_terms m0 = Inr b0 \<and> prepared dirs select_terms m1 = Inr b1
         \<and> apply_select select_terms v0 = Inr w0 \<and> apply_select select_terms v1 = Inr w1
         \<and> exact_scores dirs select_terms (m0, v0) (m1, v1) = Inr sc"
proof -
  from assms obtain adata_cat adata_others dirs r2 m0 v0 m1 v1 r3 where
    groups: "category_groups C adata cats_col cmp n_sample use_directions directions_key cat r0
               = Inr (adata_cat, adata_others, dirs, r2)"
    and enc: "encode_groups (get_latent_mean_var C) self adata_cat adata_others r2
               = Inr ((m0, v0), (m1, v1), r3)"
    and sc: "exact_scores dirs select_terms (m0, v0) (m1, v1) = Inr sc"
    by (auto simp: enrich_category_def ebind_eq_Inr)
  from exact_scores_prepared [OF sc] obtain b0 b1 w0 w1 where
    b: "prepared dirs select_terms m0 = Inr b0" "prepared dirs select_terms m1 = Inr b1"
       "apply_select select_terms v0 = Inr w0" "apply_select select_terms v1 = Inr w1"
    by blast
  have "tested_exact C self adata cats_col cmp n_sample use_directions directions_key
          select_terms cat r0 = Inr (b0, w0, b1, w1)"
    by (simp add: tested_exact_def groups enc b)
  with b sc show ?thesis by blast
qed

lemma kernel_lengths:
  assumes res: "sampled_scores d s a0 a1 = Inr sc \<or> exact_scores d s (a0, v0) (a1, v1) = Inr sc"
      and b0: "prepared d s a0 = Inr b0" and b1: "prepared d s a1 = Inr b1"
  shows "length (p_h0 sc) = shape1 b0 \<and> length (p_h1 sc) = shape1 b0
       \<and> length (bf sc) = shape1 b0"
proof -
  let ?zm = "map (\<lambda>(x, y). x \<or> y) (zip (zero_columns b0) (zero_columns b1))"
  from res obtain p0 where sc: "sc = bayes_scores p0 ?zm"
    and p0: "length p0 = shape1 b0" and same: "shape1 b1 = shape1 b0"
  proof
    assume "sampled_scores d s a0 a1 = Inr sc"
    from sampled_scores_Inr [OF this b0 b1] obtain tr where
      tr: "zip_arrays fgt b0 b1 = Inr tr"
      and "sc = bayes_scores (mean0 (map_array float_of_bool tr)) ?zm"
      by blast
    with zip_arrays_Inr [OF tr] that show ?thesis
      by (simp add: map_array_def)
  next
    assume "exact_scores d s (a0, v0) (a1, v1) = Inr sc"
    from exact_scores_Inr [OF this b0 b1] obtain w0 w1 tr where
      tr: "exact_to_reduce b0 w0 b1 w1 = Inr tr"
      and "sc = bayes_scores (mean0 tr) ?zm"
      by blast
    with exact_to_reduce_Inr(2,8) [OF tr] that show ?thesis
      by simp
  qed
  have len: "length ?zm = shape1 b0"
    using same by simp
  from bayes_scores_length [OF p0 len] show ?thesis
    unfolding sc by simp
qed

text \<open>
  C3: let \<open>latent_enrich\<close> succeed with the dataset \<open>d\<close>, and let \<open>cat\<close> be a category
  that the loop visits (not excluded by the comparison; \<open>pre\<close> are the categories before
  it).  Then scores are stored for \<open>cat\<close> under the output key, with one entry per term
  of the two samples \<open>b0\<close>, \<open>b1\<close> that were encoded for \<open>cat\<close> and tested (the latent
  values for \<open>exact=False\<close>, the latent means for \<open>exact=True\<close>).  For every term \<open>j\<close>
  whose absolute values in \<open>b0\<close>, or in \<open>b1\<close>, sum to exactly 0 over the sampled cells,
  the stored entries of \<open>p_h0\<close>, \<open>p_h1\<close> and \<open>bf\<close> are exactly 0, whatever the values of
  the other group are.
\<close>

theorem zero_sum_terms_score_zero:
  assumes run: "latent_enrich C self groups comparison n_sample use_directions directions_key
                  select_terms adata_arg exact key_added r = Inr (d, r')"
      and grp: "resolve_groups (case adata_arg of None \<Rightarrow> self_adata self | Some a \<Rightarrow> a) groups
                  = Inr (adata, cats_col, cats)"
      and split: "cats = pre @ cat # post" and last: "cat \<notin> set post"
      and visited: "\<not> in_comparison cat (normalise_comparison comparison)"
  shows "\<exists>scores0 r0 sc b0 b1.
           enrich_loop
             (enrich_category C self adata cats_col (normalise_comparison comparison) n_sample
                use_directions directions_key select_terms exact)
             (normalise_comparison comparison) pre Map.empty r = Inr (scores0, r0)
         \<and> (if exact
            then \<exists>w0 w1. tested_exact C self adata cats_col (normalise_comparison comparison)
                           n_sample use_directions directions_key select_terms cat r0
                         = Inr (b0, w0, b1, w1)
            else tested_sampled C self adata cats_col (normalise_comparison comparison)
                   n_sample use_directions directions_key select_terms cat r0
                 = Inr (b0, b1))
         \<and> stored_scores d key_added cat = Some sc
         \<and> length (p_h0 sc) = shape1 b0 \<and> length (p_h1 sc) = shape1 b0
         \<and> length (bf sc) = shape1 b0
         \<and> (\<forall>j < shape1 b0.
               fsum (map fabs (column b0 j)) = Fin 0 \<or> fsum (map fabs (column b1 j)) = Fin 0
               \<longrightarrow> p_h0 sc ! j = Fin 0 \<and> p_h1 sc ! j = Fin 0 \<and> bf sc ! j = Fin 0)"
proof -
  let ?cmpn = "normalise_comparison comparison"
  let ?body = "enrich_category C self adata cats_col ?cmpn n_sample use_directions
                 directions_key select_terms exact"
  from latent_enrich_Inr [OF run grp] obtain scores where
    loop: "enrich_loop ?body ?cmpn cats Map.empty r = Inr (scores, r')"
    and stored: "\<And>c. stored_scores d key_added c = scores c"
    by blast
  from enrich_loop_visit [OF loop [unfolded split] last visited] obtain scores0 r0 sc r1 where
    pre: "enrich_loop ?body ?cmpn pre Map.empty r = Inr (scores0, r0)"
    and body: "?body cat r0 = Inr (sc, r1)"
    and sc: "scores cat = Some sc"
    by blast
  have st: "stored_scores d key_added cat = Some sc"
    using stored sc by simp
  show ?thesis
  proof (cases exact)
    case False
    with body have body': "enrich_category C self adata cats_col ?cmpn n_sample use_directions
                             directions_key select_terms False cat r0 = Inr (sc, r1)"
      by simp
    from enrich_category_sampled [OF body'] obtain dirs z0 z1 b0 b1 where
      t: "tested_sampled C self adata cats_col ?cmpn n_sample use_directions directions_key
            select_terms cat r0 = Inr (b0, b1)"
      and b: "prepared dirs select_terms z0 = Inr b0" "prepared dirs select_terms z1 = Inr b1"
      and k: "sampled_scores dirs select_terms z0 z1 = Inr sc"
      by blast
    have res: "sampled_scores dirs select_terms z0 z1 = Inr sc
                 \<or> exact_scores dirs select_terms (z0, z0) (z1, z1) = Inr sc"
      using k by simp
    have zero: "p_h0 sc ! j = Fin 0 \<and> p_h1 sc ! j = Fin 0 \<and> bf sc ! j = Fin 0"
      if "j < shape1 b0"
         "fsum (map fabs (column b0 j)) = Fin 0 \<or> fsum (map fabs (column b1 j)) = Fin 0" for j
      using kernel_zero_sum [OF res b that] by simp
    from kernel_lengths [OF res b] zero pre t st False show ?thesis
      by (intro exI [of _ scores0] exI [of _ r0] exI [of _ sc] exI [of _ b0] exI [of _ b1])
         simp
  next
    case True
    with body have body': "enrich_category C self adata cats_col ?cmpn n_sample use_directions
                             directions_key select_terms True cat r0 = Inr (sc, r1)"
      by simp
    from enrich_category_exact [OF body'] obtain dirs m0 v0 m1 v1 b0 w0 b1 w1 where
      t: "tested_exact C self adata cats_col ?cmpn n_sample use_directions directions_key
            select_terms cat r0 = Inr (b0, w0, b1, w1)"
      and b: "prepared dirs select_terms m0 = Inr b0" "prepared dirs select_terms m1 = Inr b1"
      and k: "exact_scores dirs select_terms (m0, v0) (m1, v1) = Inr sc"
      by blast
    have res: "sampled_scores dirs select_terms m0 m1 = Inr sc
                 \<or> exact_scores dirs select_terms (m0, v0) (m1, v1) = Inr sc"
      using k by simp
    have zero: "p_h0 sc ! j = Fin 0 \<and> p_h1 sc ! j = Fin 0 \<and> bf sc ! j = Fin 0"
      if "j < shape1 b0"
         "fsum (map fabs (column b0 j)) = Fin 0 \<or> fsum (map fabs (column b1 j)) = Fin 0" for j
      using kernel_zero_sum [OF res b that] by simp
    from kernel_lengths [OF res b] zero pre t st True show ?thesis
      by (intro exI [of _ scores0] exI [of _ r0] exI [of _ sc] exI [of _ b0] exI [of _ b1])
         auto
  qed
qed

text \<open>
  The example run for \<open>exact=False\<close>: the sample of category \<open>A\<close> is all 0, that of the
  rest all 1.
\<close>

lemma example_self_cells_fields:
  "self_adata example_self_cells = example_cells"
  "self_condition_key example_self_cells = Some ''batch''"
  by (simp_all add: example_self_cells_def EXPIMAP_init_def init_defaults_def
        resolve_mask_def resolve_conditions_def arg_tensor_def array_of_rows_def
        resolve_ext_mask_def example_expiMap_def arg_tolist_def example_cells_def)

lemma example_cells_groups:
  "resolve_groups example_cells (GroupsKey ''cell_type'')
     = Inr (example_cells, [Some ''A'', Some ''B''], [''A'', ''B''])"
  by (simp add: resolve_groups_def example_cells_def)

lemma example_not_in_rest:
  "\<not> in_comparison ''A'' (CompStr ''rest'')" "\<not> in_comparison ''B'' (CompStr ''rest'')"
  by (simp_all add: in_comparison_def sublist_code(3))

lemma example_encoder_fields:
  "random_draws example_encoder = (\<lambda>a n r. (replicate n 0, r))"
  "random_draws example_encoder_inf = (\<lambda>a n r. (replicate n 0, r))"
  "get_latent example_encoder =
     (\<lambda>x c r. Inr (\<lparr>shape0 = length x, shape1 = 1, entry = (\<lambda>i j. Fin (real (x ! i)))\<rparr>, r))"
  "get_latent_mean_var example_encoder =
     (\<lambda>x c r. Inr ((\<lparr>shape0 = length x, shape1 = 1, entry = (\<lambda>i j. Fin 1)\<rparr>,
                      \<lparr>shape0 = length x, shape1 = 1, entry = (\<lambda>i j. Fin 1)\<rparr>), r))"
  "get_latent_mean_var example_encoder_inf =
     (\<lambda>x c r. Inr ((\<lparr>shape0 = length x, shape1 = 1, entry = (\<lambda>i j. PInf)\<rparr>,
                      \<lparr>shape0 = length x, shape1 = 1, entry = (\<lambda>i j. Fin 1)\<rparr>), r))"
  by (simp_all add: example_encoder_def example_encoder_inf_def)

lemma example_category_groups:
  assumes "random_draws C = (\<lambda>a n r. (replicate n 0, r))"
  shows "\<exists>ca cb. category_groups C example_cells [Some ''A'', Some ''B''] (CompStr ''rest'') 2
                    False ''directions'' ''A'' r = Inr (ca, cb, None, r)
           \<and> X ca = [0, 0] \<and> X cb = [1, 1]
           \<and> obs ca ''batch'' = Some [''b1'', ''b1''] \<and> obs cb ''batch'' = Some [''b1'', ''b1'']"
    and "\<exists>ca cb. category_groups C example_cells [Some ''A'', Some ''B''] (CompStr ''rest'') 2
                    False ''directions'' ''B'' r = Inr (ca, cb, None, r)
           \<and> X ca = [1, 1] \<and> X cb = [0, 0]
           \<and> obs ca ''batch'' = Some [''b1'', ''b1''] \<and> obs cb ''batch'' = Some [''b1'', ''b1'']"
  using assms
  by (simp_all add: category_groups_def others_of_def random_choice_def count_true_def
        true_positions_def take_rows_def example_cells_def Let_def numeral_2_eq_2)

lemma example_tested_sampled:
  "\<exists>b0 b1. tested_sampled example_encoder example_self_cells example_cells
             [Some ''A'', Some ''B''] (CompStr ''rest'') 2 False ''directions'' None ''A'' ()
           = Inr (b0, b1)
         \<and> shape1 b0 = 1 \<and> column b0 0 = [Fin 0, Fin 0] \<and> column b1 0 = [Fin 1, Fin 1]"
proof -
  from example_category_groups(1) [OF example_encoder_fields(1), of "()"] obtain ca cb where
    g: "category_groups example_encoder example_cells [Some ''A'', Some ''B''] (CompStr ''rest'')
          2 False ''directions'' ''A'' () = Inr (ca, cb, None, ())"
    and x: "X ca = [0, 0]" "X cb = [1, 1]"
    and o: "obs ca ''batch'' = Some [''b1'', ''b1'']" "obs cb ''batch'' = Some [''b1'', ''b1'']"
    by blast
  show ?thesis
    apply (simp only: tested_sampled_def g)
    apply (simp add: encode_groups_def obs_column_def
          example_self_cells_fields o x example_encoder_fields column_def
          upt_rec [of _ 2] upt_rec [of _ "Suc 0"] numeral_2_eq_2)
    done
qed

lemma example_enrich_sampled:
  assumes "cat = ''A'' \<or> cat = ''B''"
  shows "\<exists>sc. enrich_category example_encoder example_self_cells example_cells
           [Some ''A'', Some ''B''] (CompStr ''rest'') 2 False ''directions'' None False cat ()
         = Inr (sc, ())"
proof -
  from assms example_category_groups [OF example_encoder_fields(1), of "()"] obtain ca cb where
    g: "category_groups example_encoder example_cells [Some ''A'', Some ''B''] (CompStr ''rest'')
          2 False ''directions'' cat () = Inr (ca, cb, None, ())"
    and x: "length (X ca) = 2" "length (X cb) = 2"
    and o: "obs ca ''batch'' = Some [''b1'', ''b1'']" "obs cb ''batch'' = Some [''b1'', ''b1'']"
    by auto
  show ?thesis
    apply (simp only: enrich_category_def g)
    apply (simp add: encode_groups_def obs_column_def
          example_self_cells_fields o x example_encoder_fields sampled_scores_def
          apply_directions_def apply_select_def zip_arrays_def)
    done
qed

lemma example_run_sampled:
  "\<exists>d. latent_enrich example_encoder example_self_cells (GroupsKey ''cell_type'')
          (CompStr ''rest'') 2 False ''directions'' None None False ''bf_scores'' ()
        = Inr (d, ())"
proof -
  let ?body = "enrich_category example_encoder example_self_cells example_cells
                 [Some ''A'', Some ''B''] (CompStr ''rest'') 2 False ''directions'' None False"
  from example_enrich_sampled [of "''A''"] obtain sa where
    a: "?body ''A'' () = Inr (sa, ())" by auto
  from example_enrich_sampled [of "''B''"] obtain sb where
    b: "?body ''B'' () = Inr (sb, ())" by auto
  have "enrich_loop ?body (CompStr ''rest'') [''A'', ''B''] Map.empty ()
          = Inr ([''A'' \<mapsto> sa, ''B'' \<mapsto> sb], ())"
    by (simp add: example_not_in_rest a b)
  then show ?thesis
    by (simp add: latent_enrich_def example_self_cells_fields example_cells_groups
          comparison_set_def normalise_comparison_def)
qed

text \<open>The scores stored for \<open>A\<close> in that run are 0.\<close>

theorem zero_sum_terms_score_zero_witness:
  "stored_scores
     (fst (projr (latent_enrich example_encoder example_self_cells (GroupsKey ''cell_type'')
                    (CompStr ''rest'') 2 False ''directions'' None None False ''bf_scores'' ())))
     ''bf_scores'' ''A'' \<noteq> None
   \<and> p_h0 (the (stored_scores
        (fst (projr (latent_enrich example_encoder example_self_cells (GroupsKey ''cell_type'')
                       (CompStr ''rest'') 2 False ''directions'' None None False ''bf_scores'' ())))
        ''bf_scores'' ''A'')) ! 0 = Fin 0
   \<and> p_h1 (the (stored_scores
        (fst (projr (latent_enrich example_encoder example_self_cells (GroupsKey ''cell_type'')
                       (CompStr ''rest'') 2 False ''directions'' None None False ''bf_scores'' ())))
        ''bf_scores'' ''A'')) ! 0 = Fin 0
   \<and> bf (the (stored_scores
        (fst (projr (latent_enrich example_encoder example_self_cells (GroupsKey ''cell_type'')
                       (CompStr ''rest'') 2 False ''directions'' None None False ''bf_scores'' ())))
        ''bf_scores'' ''A'')) ! 0 = Fin 0"
proof -
  from example_run_sampled obtain d where
    run: "latent_enrich example_encoder example_self_cells (GroupsKey ''cell_type'')
            (CompStr ''rest'') 2 False ''directions'' None None False ''bf_scores'' ()
          = Inr (d, ())"
    by blast
  have grp: "resolve_groups (case None of None \<Rightarrow> self_adata example_self_cells | Some a \<Rightarrow> a)
               (GroupsKey ''cell_type'')
             = Inr (example_cells, [Some ''A'', Some ''B''], [''A'', ''B''])"
    by (simp add: example_self_cells_fields example_cells_groups)
  have split: "[''A'', ''B''] = [] @ ''A'' # [''B'']" by simp
  have last: "''A'' \<notin> set [''B'']" by simp
  have visited: "\<not> in_comparison ''A'' (normalise_comparison (CompStr ''rest''))"
    by (simp add: normalise_comparison_def example_not_in_rest)
  from zero_sum_terms_score_zero [OF run grp split last visited] obtain r0 sc b0 b1 where
    t: "tested_sampled example_encoder example_self_cells example_cells
          [Some ''A'', Some ''B''] (normalise_comparison (CompStr ''rest'')) 2 False
          ''directions'' None ''A'' r0 = Inr (b0, b1)"
    and st: "stored_scores d ''bf_scores'' ''A'' = Some sc"
    and zero: "\<forall>j < shape1 b0.
                 fsum (map fabs (column b0 j)) = Fin 0 \<or> fsum (map fabs (column b1 j)) = Fin 0
                 \<longrightarrow> p_h0 sc ! j = Fin 0 \<and> p_h1 sc ! j = Fin 0 \<and> bf sc ! j = Fin 0"
    by auto
  from example_tested_sampled obtain c0 c1 where
    c: "tested_sampled example_encoder example_self_cells example_cells
          [Some ''A'', Some ''B''] (CompStr ''rest'') 2 False ''directions'' None ''A'' ()
        = Inr (c0, c1)"
    and c0: "shape1 c0 = 1" "column c0 0 = [Fin 0, Fin 0]"
    by blast
  have "b0 = c0"
    using t c by (simp add: normalise_comparison_def)
  with c0 zero have "p_h0 sc ! 0 = Fin 0 \<and> p_h1 sc ! 0 = Fin 0 \<and> bf sc ! 0 = Fin 0"
    by (simp add: fsum_def)
  with st run show ?thesis by simp
qed

text \<open>
  C4, as the code has it: let \<open>latent_enrich\<close> succeed with \<open>exact=True\<close>, and let
  \<open>cat\<close> be a category that the loop visits, with the prepared means \<open>b0\<close>, \<open>b1\<close> and
  the selected variances \<open>w0\<close>, \<open>w1\<close> of its two samples.  For every term \<open>j\<close> whose
  means are equal and finite in every sampled cell, whose variances are finite and
  positive, and which the zero-sum mask does not flag, the standardized difference \<open>z\<close> is 0
  and \<open>to_reduce\<close> is 1/2 in every cell, and the stored scores of \<open>cat\<close> for the term are
  \<open>p_h0 = p_h1 = 1/2\<close> and \<open>bf = 0\<close>.
\<close>

theorem equal_means_give_even_odds:
  assumes run: "latent_enrich C self groups comparison n_sample use_directions directions_key
                  select_terms adata_arg True key_added r = Inr (d, r')"
      and grp: "resolve_groups (case adata_arg of None \<Rightarrow> self_adata self | Some a \<Rightarrow> a) groups
                  = Inr (adata, cats_col, cats)"
      and split: "cats = pre @ cat # post" and last: "cat \<notin> set post"
      and visited: "\<not> in_comparison cat (normalise_comparison comparison)"
  shows "\<exists>scores0 r0 sc b0 w0 b1 w1 z tr.
           enrich_loop
             (enrich_category C self adata cats_col (normalise_comparison comparison) n_sample
                use_directions directions_key select_terms True)
             (normalise_comparison comparison) pre Map.empty r = Inr (scores0, r0)
         \<and> tested_exact C self adata cats_col (normalise_comparison comparison)
             n_sample use_directions directions_key select_terms cat r0
           = Inr (b0, w0, b1, w1)
         \<and> std_diff b0 w0 b1 w1 = Inr z \<and> exact_to_reduce b0 w0 b1 w1 = Inr tr
         \<and> stored_scores d key_added cat = Some sc
         \<and> length (p_h0 sc) = shape1 b0 \<and> length (p_h1 sc) = shape1 b0
         \<and> length (bf sc) = shape1 b0
         \<and> (\<forall>j < shape1 b0.
               (\<forall>i < shape0 b0. \<exists>x. entry b0 i j = Fin x \<and> entry b1 i j = Fin x)
             \<and> (\<forall>i < shape0 b0. \<exists>a b. entry w0 i j = Fin a \<and> entry w1 i j = Fin b
                                        \<and> 0 < a \<and> 0 < b)
             \<and> \<not> zero_columns b0 ! j \<and> \<not> zero_columns b1 ! j
             \<longrightarrow> (\<forall>i < shape0 b0. entry z i j = Fin 0 \<and> entry tr i j = Fin (1 / 2))
                 \<and> p_h0 sc ! j = Fin (1 / 2) \<and> p_h1 sc ! j = Fin (1 / 2)
                 \<and> bf sc ! j = Fin 0)"
proof -
  let ?cmpn = "normalise_comparison comparison"
  let ?body = "enrich_category C self adata cats_col ?cmpn n_sample use_directions
                 directions_key select_terms True"
  from latent_enrich_Inr [OF run grp] obtain scores where
    loop: "enrich_loop ?body ?cmpn cats Map.empty r = Inr (scores, r')"
    and stored: "\<And>c. stored_scores d key_added c = scores c"
    by blast
  from enrich_loop_visit [OF loop [unfolded split] last visited] obtain scores0 r0 sc r1 where
    pre: "enrich_loop ?body ?cmpn pre Map.empty r = Inr (scores0, r0)"
    and body: "?body cat r0 = Inr (sc, r1)"
    and sc: "scores cat = Some sc"
    by blast
  have st: "stored_scores d key_added cat = Some sc"
    using stored sc by simp
  from enrich_category_exact [OF body] obtain dirs m0 v0 m1 v1 b0 w0 b1 w1 where
    t: "tested_exact C self adata cats_col ?cmpn n_sample use_directions directions_key
          select_terms cat r0 = Inr (b0, w0, b1, w1)"
    and b: "prepared dirs select_terms m0 = Inr b0" "prepared dirs select_terms m1 = Inr b1"
    and w: "apply_select select_terms v0 = Inr w0" "apply_select select_terms v1 = Inr w1"
    and k: "exact_scores dirs select_terms (m0, v0) (m1, v1) = Inr sc"
    by blast
  from exact_scores_Inr [OF k b] w obtain tr where
    tr: "exact_to_reduce b0 w0 b1 w1 = Inr tr"
    by auto
  from exact_to_reduce_Inr(9) [OF tr] obtain z where
    z: "std_diff b0 w0 b1 w1 = Inr z"
    by blast
  have res: "sampled_scores dirs select_terms m0 m1 = Inr sc
               \<or> exact_scores dirs select_terms (m0, v0) (m1, v1) = Inr sc"
    using k by simp
  have main: "(\<forall>i < shape0 b0. entry z i j = Fin 0 \<and> entry tr i j = Fin (1 / 2))
                \<and> p_h0 sc ! j = Fin (1 / 2) \<and> p_h1 sc ! j = Fin (1 / 2) \<and> bf sc ! j = Fin 0"
    if "j < shape1 b0"
       "\<forall>i < shape0 b0. \<exists>x. entry b0 i j = Fin x \<and> entry b1 i j = Fin x"
       "\<forall>i < shape0 b0. \<exists>a b. entry w0 i j = Fin a \<and> entry w1 i j = Fin b \<and> 0 < a \<and> 0 < b"
       "\<not> zero_columns b0 ! j" "\<not> zero_columns b1 ! j" for j
    using kernel_equal_means [OF k b w that] z tr by auto
  from kernel_lengths [OF res b] main pre t st z tr show ?thesis
    by (intro exI [of _ scores0] exI [of _ r0] exI [of _ sc] exI [of _ b0] exI [of _ w0]
          exI [of _ b1] exI [of _ w1] exI [of _ z] exI [of _ tr]) simp
qed

text \<open>The example runs for \<open>exact=True\<close>, with all means 1 and with all means infinite.\<close>

lemma example_groups_exact:
  assumes "C = example_encoder \<or> C = example_encoder_inf" and "cat = ''A'' \<or> cat = ''B''"
  shows "\<exists>ca cb. category_groups C example_cells [Some ''A'', Some ''B''] (CompStr ''rest'') 2
                    False ''directions'' cat () = Inr (ca, cb, None, ())
           \<and> length (X ca) = 2 \<and> length (X cb) = 2
           \<and> obs ca ''batch'' = Some [''b1'', ''b1''] \<and> obs cb ''batch'' = Some [''b1'', ''b1'']"
proof -
  from assms(1) have "random_draws C = (\<lambda>a n r. (replicate n 0, r))"
    by (auto simp: example_encoder_fields)
  from example_category_groups [OF this, of "()"] assms(2) show ?thesis
    by auto
qed

lemma example_tested_exact:
  "\<exists>b0 w0 b1 w1.
      tested_exact example_encoder example_self_cells example_cells [Some ''A'', Some ''B'']
        (CompStr ''rest'') 2 False ''directions'' None ''A'' () = Inr (b0, w0, b1, w1)
    \<and> shape0 b0 = 2 \<and> shape1 b0 = 1 \<and> shape0 b1 = 2 \<and> shape1 b1 = 1
    \<and> entry b0 = (\<lambda>i j. Fin 1) \<and> entry b1 = (\<lambda>i j. Fin 1)
    \<and> entry w0 = (\<lambda>i j. Fin 1) \<and> entry w1 = (\<lambda>i j. Fin 1)"
proof -
  from example_groups_exact [of example_encoder "''A''"] obtain ca cb where
    g: "category_groups example_encoder example_cells [Some ''A'', Some ''B''] (CompStr ''rest'')
          2 False ''directions'' ''A'' () = Inr (ca, cb, None, ())"
    and x: "length (X ca) = 2" "length (X cb) = 2"
    and o: "obs ca ''batch'' = Some [''b1'', ''b1'']" "obs cb ''batch'' = Some [''b1'', ''b1'']"
    by auto
  show ?thesis
    apply (simp only: tested_exact_def g)
    apply (simp add: encode_groups_def obs_column_def example_self_cells_fields o x
          example_encoder_fields apply_select_def)
    done
qed

lemma example_tested_exact_inf:
  "tested_exact example_encoder_inf example_self_cells example_cells [Some ''A'', Some ''B'']
     (CompStr ''rest'') 2 False ''directions'' None ''A'' ()
   = Inr (\<lparr>shape0 = 2, shape1 = 1, entry = (\<lambda>i j. PInf)\<rparr>,
          \<lparr>shape0 = 2, shape1 = 1, entry = (\<lambda>i j. Fin 1)\<rparr>,
          \<lparr>shape0 = 2, shape1 = 1, entry = (\<lambda>i j. PInf)\<rparr>,
          \<lparr>shape0 = 2, shape1 = 1, entry = (\<lambda>i j. Fin 1)\<rparr>)"
proof -
  from example_groups_exact [of example_encoder_inf "''A''"] obtain ca cb where
    g: "category_groups example_encoder_inf example_cells [Some ''A'', Some ''B'']
          (CompStr ''rest'') 2 False ''directions'' ''A'' () = Inr (ca, cb, None, ())"
    and x: "length (X ca) = 2" "length (X cb) = 2"
    and o: "obs ca ''batch'' = Some [''b1'', ''b1'']" "obs cb ''batch'' = Some [''b1'', ''b1'']"
    by auto
  show ?thesis
    apply (simp only: tested_exact_def g)
    apply (simp add: encode_groups_def obs_column_def example_self_cells_fields o x
          example_encoder_fields apply_select_def)
    done
qed

lemma example_enrich_exact:
  assumes "cat = ''A'' \<or> cat = ''B''"
  shows "\<exists>sc. enrich_category example_encoder example_self_cells example_cells
           [Some ''A'', Some ''B''] (CompStr ''rest'') 2 False ''directions'' None True cat ()
         = Inr (sc, ())"
proof -
  from assms example_groups_exact [of example_encoder cat] obtain ca cb where
    g: "category_groups example_encoder example_cells [Some ''A'', Some ''B''] (CompStr ''rest'')
          2 False ''directions'' cat () = Inr (ca, cb, None, ())"
    and x: "length (X ca) = 2" "length (X cb) = 2"
    and o: "obs ca ''batch'' = Some [''b1'', ''b1'']" "obs cb ''batch'' = Some [''b1'', ''b1'']"
    by auto
  show ?thesis
    apply (simp only: enrich_category_def g)
    apply (simp add: encode_groups_def obs_column_def example_self_cells_fields o x
          example_encoder_fields exact_scores_def exact_to_reduce_def std_diff_def
          apply_directions_def apply_select_def zip_arrays_def map_array_def)
    done
qed

lemma example_enrich_exact_inf:
  assumes "cat = ''A'' \<or> cat = ''B''"
  shows "enrich_category example_encoder_inf example_self_cells example_cells
           [Some ''A'', Some ''B''] (CompStr ''rest'') 2 False ''directions'' None True cat ()
         = Inr (\<lparr>p_h0 = [NaN], p_h1 = [NaN], bf = [NaN]\<rparr>, ())"
proof -
  from assms example_groups_exact [of example_encoder_inf cat] obtain ca cb where
    g: "category_groups example_encoder_inf example_cells [Some ''A'', Some ''B'']
          (CompStr ''rest'') 2 False ''directions'' cat () = Inr (ca, cb, None, ())"
    and x: "length (X ca) = 2" "length (X cb) = 2"
    and o: "obs ca ''batch'' = Some [''b1'', ''b1'']" "obs cb ''batch'' = Some [''b1'', ''b1'']"
    by auto
  show ?thesis
    apply (simp only: enrich_category_def g)
    apply (simp add: encode_groups_def obs_column_def example_self_cells_fields o x
          example_encoder_fields exact_scores_def exact_to_reduce_def std_diff_def
          apply_directions_def apply_select_def zip_arrays_def map_array_def
          bayes_scores_def mean0_def fmean_def fsum_def column_def zero_columns_def
          abs_sum0_def mask_assign_def fsub_def feq_def Let_def
          upt_rec [of _ 2] upt_rec [of _ "Suc 0"])
    done
qed

lemma example_run_exact:
  "\<exists>d. latent_enrich example_encoder example_self_cells (GroupsKey ''cell_type'')
          (CompStr ''rest'') 2 False ''directions'' None None True ''bf_scores'' ()
        = Inr (d, ())"
proof -
  let ?body = "enrich_category example_encoder example_self_cells example_cells
                 [Some ''A'', Some ''B''] (CompStr ''rest'') 2 False ''directions'' None True"
  from example_enrich_exact [of "''A''"] obtain sa where
    a: "?body ''A'' () = Inr (sa, ())" by auto
  from example_enrich_exact [of "''B''"] obtain sb where
    b: "?body ''B'' () = Inr (sb, ())" by auto
  have "enrich_loop ?body (CompStr ''rest'') [''A'', ''B''] Map.empty ()
          = Inr ([''A'' \<mapsto> sa, ''B'' \<mapsto> sb], ())"
    by (simp add: example_not_in_rest a b)
  then show ?thesis
    by (simp add: latent_enrich_def example_self_cells_fields example_cells_groups
          comparison_set_def normalise_comparison_def)
qed

lemma example_run_exact_inf:
  "\<exists>d. latent_enrich example_encoder_inf example_self_cells (GroupsKey ''cell_type'')
          (CompStr ''rest'') 2 False ''directions'' None None True ''bf_scores'' ()
        = Inr (d, ())
      \<and> stored_scores d ''bf_scores'' ''A'' = Some \<lparr>p_h0 = [NaN], p_h1 = [NaN], bf = [NaN]\<rparr>"
proof -
  let ?body = "enrich_category example_encoder_inf example_self_cells example_cells
                 [Some ''A'', Some ''B''] (CompStr ''rest'') 2 False ''directions'' None True"
  let ?nan = "\<lparr>p_h0 = [NaN], p_h1 = [NaN], bf = [NaN]\<rparr>"
  have a: "?body ''A'' () = Inr (?nan, ())" and b: "?body ''B'' () = Inr (?nan, ())"
    by (simp_all add: example_enrich_exact_inf)
  have "enrich_loop ?body (CompStr ''rest'') [''A'', ''B''] Map.empty ()
          = Inr ([''A'' \<mapsto> ?nan, ''B'' \<mapsto> ?nan], ())"
    by (simp add: example_not_in_rest a b)
  then show ?thesis
    by (simp add: latent_enrich_def example_self_cells_fields example_cells_groups
          comparison_set_def normalise_comparison_def stored_scores_def)
qed

text \<open>With mean 1 and variance 1 in every cell, the scores stored for \<open>A\<close> are 1/2, 1/2, 0.\<close>

theorem equal_means_give_even_odds_witness:
  "stored_scores
     (fst (projr (latent_enrich example_encoder example_self_cells (GroupsKey ''cell_type'')
                    (CompStr ''rest'') 2 False ''directions'' None None True ''bf_scores'' ())))
     ''bf_scores'' ''A'' \<noteq> None
   \<and> p_h0 (the (stored_scores
        (fst (projr (latent_enrich example_encoder example_self_cells (GroupsKey ''cell_type'')
                       (CompStr ''rest'') 2 False ''directions'' None None True ''bf_scores'' ())))
        ''bf_scores'' ''A'')) ! 0 = Fin (1 / 2)
   \<and> p_h1 (the (stored_scores
        (fst (projr (latent_enrich example_encoder example_self_cells (GroupsKey ''cell_type'')
                       (CompStr ''rest'') 2 False ''directions'' None None True ''bf_scores'' ())))
        ''bf_scores'' ''A'')) ! 0 = Fin (1 / 2)
   \<and> bf (the (stored_scores
        (fst (projr (latent_enrich example_encoder example_self_cells (GroupsKey ''cell_type'')
                       (CompStr ''rest'') 2 False ''directions'' None None True ''bf_scores'' ())))
        ''bf_scores'' ''A'')) ! 0 = Fin 0"
proof -
  from example_run_exact obtain d where
    run: "latent_enrich example_encoder example_self_cells (GroupsKey ''cell_type'')
            (CompStr ''rest'') 2 False ''directions'' None None True ''bf_scores'' ()
          = Inr (d, ())"
    by blast
  have grp: "resolve_groups (case None of None \<Rightarrow> self_adata example_self_cells | Some a \<Rightarrow> a)
               (GroupsKey ''cell_type'')
             = Inr (example_cells, [Some ''A'', Some ''B''], [''A'', ''B''])"
    by (simp add: example_self_cells_fields example_cells_groups)
  have split: "[''A'', ''B''] = [] @ ''A'' # [''B'']" by simp
  have last: "''A'' \<notin> set [''B'']" by simp
  have visited: "\<not> in_comparison ''A'' (normalise_comparison (CompStr ''rest''))"
    by (simp add: normalise_comparison_def example_not_in_rest)
  from equal_means_give_even_odds [OF run grp split last visited]
  obtain r0 sc b0 w0 b1 w1 where
    t: "tested_exact example_encoder example_self_cells example_cells
          [Some ''A'', Some ''B''] (normalise_comparison (CompStr ''rest'')) 2 False
          ''directions'' None ''A'' r0 = Inr (b0, w0, b1, w1)"
    and st: "stored_scores d ''bf_scores'' ''A'' = Some sc"
    and rule: "\<forall>j < shape1 b0.
               (\<forall>i < shape0 b0. \<exists>x. entry b0 i j = Fin x \<and> entry b1 i j = Fin x)
             \<and> (\<forall>i < shape0 b0. \<exists>a b. entry w0 i j = Fin a \<and> entry w1 i j = Fin b
                                        \<and> 0 < a \<and> 0 < b)
             \<and> \<not> zero_columns b0 ! j \<and> \<not> zero_columns b1 ! j
             \<longrightarrow> p_h0 sc ! j = Fin (1 / 2) \<and> p_h1 sc ! j = Fin (1 / 2) \<and> bf sc ! j = Fin 0"
    by blast
  from example_tested_exact obtain c0 x0 c1 x1 where
    c: "tested_exact example_encoder example_self_cells example_cells [Some ''A'', Some ''B'']
          (CompStr ''rest'') 2 False ''directions'' None ''A'' () = Inr (c0, x0, c1, x1)"
    and shapes: "shape0 c0 = 2" "shape1 c0 = 1" "shape0 c1 = 2" "shape1 c1 = 1"
    and entries: "entry c0 = (\<lambda>i j. Fin 1)" "entry c1 = (\<lambda>i j. Fin 1)"
                 "entry x0 = (\<lambda>i j. Fin 1)" "entry x1 = (\<lambda>i j. Fin 1)"
    by blast
  have eq: "b0 = c0" "w0 = x0" "b1 = c1" "w1 = x1"
    using t c by (simp_all add: normalise_comparison_def)
  have unflagged: "\<not> zero_columns c0 ! 0" "\<not> zero_columns c1 ! 0"
    by (simp_all add: zero_columns_nth shapes entries column_def fsum_def feq_def
          upt_rec [of _ 2] upt_rec [of _ "Suc 0"])
  from rule [rule_format, of 0] unflagged
  have "p_h0 sc ! 0 = Fin (1 / 2) \<and> p_h1 sc ! 0 = Fin (1 / 2) \<and> bf sc ! 0 = Fin 0"
    unfolding eq by (simp add: shapes entries)
  with st run show ?thesis by simp
qed

text \<open>
  C4 as the spec states it fails when the equal means are infinite: with the mean
  \<open>+\<infinity>\<close> and the variance 1 in every cell of both groups, the term is not flagged, the
  difference of the means is NaN, and the scores stored for \<open>A\<close> are NaN, not 1/2 and 0.
\<close>

theorem equal_infinite_means_give_nan:
  "\<not> isl (latent_enrich example_encoder_inf example_self_cells (GroupsKey ''cell_type'')
            (CompStr ''rest'') 2 False ''directions'' None None True ''bf_scores'' ())
   \<and> tested_columns 0
       (projr (tested_exact example_encoder_inf example_self_cells example_cells
                 [Some ''A'', Some ''B''] (CompStr ''rest'') 2 False ''directions'' None ''A'' ()))
     = ([PInf, PInf], [Fin 1, Fin 1], [PInf, PInf], [Fin 1, Fin 1])
   \<and> zero_columns
       (fst (projr (tested_exact example_encoder_inf example_self_cells example_cells
                      [Some ''A'', Some ''B''] (CompStr ''rest'') 2 False ''directions'' None
                      ''A'' ())))
     = [False]
   \<and> stored_scores
       (fst (projr (latent_enrich example_encoder_inf example_self_cells (GroupsKey ''cell_type'')
                      (CompStr ''rest'') 2 False ''directions'' None None True ''bf_scores'' ())))
       ''bf_scores'' ''A''
     = Some \<lparr>p_h0 = [NaN], p_h1 = [NaN], bf = [NaN]\<rparr>
   \<and> NaN \<noteq> Fin (1 / 2) \<and> NaN \<noteq> Fin 0"
proof -
  from example_run_exact_inf obtain d where
    "latent_enrich example_encoder_inf example_self_cells (GroupsKey ''cell_type'')
       (CompStr ''rest'') 2 False ''directions'' None None True ''bf_scores'' () = Inr (d, ())"
    "stored_scores d ''bf_scores'' ''A'' = Some \<lparr>p_h0 = [NaN], p_h1 = [NaN], bf = [NaN]\<rparr>"
    by blast
  then show ?thesis
    by (simp add: example_tested_exact_inf tested_columns_def column_def zero_columns_def
          abs_sum0_def fsum_def feq_def upt_rec [of _ 2] upt_rec [of _ "Suc 0"])
qed

end
